theory Spec2Isabelle
  imports Main "HOL-Library.Word"
begin

section \<open>Logical decoding coordination (src/backend/replication/logical/logical.c)\<close>

text \<open>
  A shallow embedding of the retention advancement protocol, of the start position
  resolution of \<open>CreateDecodingContext\<close> and of the output plugin callback wrappers.
  \<open>Assert\<close> is compiled out in production builds and is modelled as a no-op; the
  assertions of the source are quoted where they matter.
\<close>

subsection \<open>Log positions and transaction ids\<close>

type_synonym XLogRecPtr = "64 word"
type_synonym TransactionId = "32 word"
type_synonym Oid = "32 word"
type_synonym RepOriginId = "16 word"

definition InvalidXLogRecPtr :: XLogRecPtr where
  "InvalidXLogRecPtr = 0"

definition InvalidTransactionId :: TransactionId where
  "InvalidTransactionId = 0"

definition FirstNormalTransactionId :: TransactionId where
  "FirstNormalTransactionId = 3"

definition InvalidOid :: Oid where
  "InvalidOid = 0"

definition TransactionIdIsValid :: "TransactionId \<Rightarrow> bool" where
  "TransactionIdIsValid xid = (xid \<noteq> InvalidTransactionId)"

definition TransactionIdIsNormal :: "TransactionId \<Rightarrow> bool" where
  "TransactionIdIsNormal xid = (FirstNormalTransactionId \<le> xid)"

text \<open>
  Modelled from the spec: the transaction id comparisons of access/transam (transam.c and
  transam.h are not among the sources). The spec asks for a modular ordering that handles
  wraparound; the definitions follow PostgreSQL's: the special ids below
  \<open>FirstNormalTransactionId\<close> compare as unsigned integers, normal ids by the sign of
  their 32-bit difference.
\<close>

definition TransactionIdPrecedes :: "TransactionId \<Rightarrow> TransactionId \<Rightarrow> bool" where
  "TransactionIdPrecedes id1 id2 =
     (if \<not> TransactionIdIsNormal id1 \<or> \<not> TransactionIdIsNormal id2 then id1 < id2
      else sint (id1 - id2) < 0)"

definition TransactionIdPrecedesOrEquals :: "TransactionId \<Rightarrow> TransactionId \<Rightarrow> bool" where
  "TransactionIdPrecedesOrEquals id1 id2 =
     (if \<not> TransactionIdIsNormal id1 \<or> \<not> TransactionIdIsNormal id2 then id1 \<le> id2
      else sint (id1 - id2) \<le> 0)"

definition TransactionIdFollows :: "TransactionId \<Rightarrow> TransactionId \<Rightarrow> bool" where
  "TransactionIdFollows id1 id2 =
     (if \<not> TransactionIdIsNormal id1 \<or> \<not> TransactionIdIsNormal id2 then id2 < id1
      else 0 < sint (id1 - id2))"

subsection \<open>The replication slot\<close>

text \<open>
  \<open>ReplicationSlotPersistentData\<close> is the part of a slot that is written to disk
  (\<open>slot->data\<close>); the other fields of \<open>ReplicationSlot\<close> live in shared memory only.
  The fields are those logical.c reads or writes.
\<close>

record ReplicationSlotPersistentData =
  database :: Oid
  catalog_xmin :: TransactionId
  restart_lsn :: XLogRecPtr
  confirmed_flush :: XLogRecPtr

record ReplicationSlot =
  data :: ReplicationSlotPersistentData
  effective_catalog_xmin :: TransactionId
  candidate_catalog_xmin :: TransactionId
  candidate_xmin_lsn :: XLogRecPtr
  candidate_restart_valid :: XLogRecPtr
  candidate_restart_lsn :: XLogRecPtr

definition SlotIsPhysical :: "ReplicationSlot \<Rightarrow> bool" where
  "SlotIsPhysical slot = (database (data slot) = InvalidOid)"

definition SlotIsLogical :: "ReplicationSlot \<Rightarrow> bool" where
  "SlotIsLogical slot = (database (data slot) \<noteq> InvalidOid)"

subsection \<open>LogicalConfirmReceivedLocation: the slot after the call\<close>

text \<open>
  The state of \<open>MyReplicationSlot\<close> when \<open>LogicalConfirmReceivedLocation(lsn)\<close> returns.
  \<open>s1\<close> is the slot after \<open>data.confirmed_flush = lsn\<close>, \<open>s2\<close> after the xmin track,
  \<open>s3\<close> after the restart track, and the last step copies \<open>data.catalog_xmin\<close> into
  \<open>effective_catalog_xmin\<close> when \<open>updated_xmin\<close> is set. Locking, persisting and the
  order of the effects are in the traced version below.
\<close>

definition LogicalConfirmReceivedLocation :: "XLogRecPtr \<Rightarrow> ReplicationSlot \<Rightarrow> ReplicationSlot" where
  "LogicalConfirmReceivedLocation lsn slot =
     (if candidate_xmin_lsn slot \<noteq> InvalidXLogRecPtr \<or>
         candidate_restart_valid slot \<noteq> InvalidXLogRecPtr
      then
        let s1 = slot\<lparr>data := (data slot)\<lparr>confirmed_flush := lsn\<rparr>\<rparr>;
            updated_xmin =
              (candidate_xmin_lsn s1 \<noteq> InvalidXLogRecPtr \<and> candidate_xmin_lsn s1 \<le> lsn \<and>
               TransactionIdIsValid (candidate_catalog_xmin s1) \<and>
               catalog_xmin (data s1) \<noteq> candidate_catalog_xmin s1);
            s2 = (if updated_xmin
                  then s1\<lparr>data := (data s1)\<lparr>catalog_xmin := candidate_catalog_xmin s1\<rparr>,
                          candidate_catalog_xmin := InvalidTransactionId,
                          candidate_xmin_lsn := InvalidXLogRecPtr\<rparr>
                  else s1);
            updated_restart =
              (candidate_restart_valid s2 \<noteq> InvalidXLogRecPtr \<and> candidate_restart_valid s2 \<le> lsn);
            s3 = (if updated_restart
                  then s2\<lparr>data := (data s2)\<lparr>restart_lsn := candidate_restart_lsn s2\<rparr>,
                          candidate_restart_lsn := InvalidXLogRecPtr,
                          candidate_restart_valid := InvalidXLogRecPtr\<rparr>
                  else s2)
        in if updated_xmin then s3\<lparr>effective_catalog_xmin := catalog_xmin (data s3)\<rparr> else s3
      else slot\<lparr>data := (data slot)\<lparr>confirmed_flush := lsn\<rparr>\<rparr>)"

subsection \<open>Proposing candidates\<close>

text \<open>
  \<open>LogicalIncreaseXminForSlot(current_lsn, xmin)\<close>: an \<open>if\<close> / \<open>else if\<close> / \<open>else if\<close>
  chain under the spinlock, then the call of \<open>LogicalConfirmReceivedLocation\<close> with the
  slot's own \<open>confirmed_flush\<close> when \<open>updated_xmin\<close> is set.
\<close>

definition LogicalIncreaseXminForSlot ::
  "XLogRecPtr \<Rightarrow> TransactionId \<Rightarrow> ReplicationSlot \<Rightarrow> ReplicationSlot" where
  "LogicalIncreaseXminForSlot current_lsn xmin slot =
     (if TransactionIdPrecedesOrEquals xmin (catalog_xmin (data slot)) then slot
      else if current_lsn \<le> confirmed_flush (data slot) then
        let s1 = slot\<lparr>candidate_catalog_xmin := xmin, candidate_xmin_lsn := current_lsn\<rparr>
        in LogicalConfirmReceivedLocation (confirmed_flush (data s1)) s1
      else if candidate_xmin_lsn slot = InvalidXLogRecPtr then
        slot\<lparr>candidate_catalog_xmin := xmin, candidate_xmin_lsn := current_lsn\<rparr>
      else slot)"

text \<open>
  \<open>LogicalIncreaseRestartDecodingForSlot(current_lsn, restart_lsn)\<close>. The second
  argument is called \<open>restart\<close> here, \<open>restart_lsn\<close> being the field. In the source the
  first two branches are an \<open>if\<close> / \<open>else if\<close>, and the test of
  \<open>candidate_restart_valid\<close> is a separate \<open>if\<close> that runs after either of them
  (\<open>s1\<close> is the slot it sees); its \<open>else\<close> branch only logs.
\<close>

definition LogicalIncreaseRestartDecodingForSlot ::
  "XLogRecPtr \<Rightarrow> XLogRecPtr \<Rightarrow> ReplicationSlot \<Rightarrow> ReplicationSlot" where
  "LogicalIncreaseRestartDecodingForSlot current_lsn restart slot =
     (let updated_lsn =
            (\<not> restart \<le> restart_lsn (data slot) \<and> current_lsn \<le> confirmed_flush (data slot));
          s1 = (if restart \<le> restart_lsn (data slot) then slot
                else if current_lsn \<le> confirmed_flush (data slot) then
                  slot\<lparr>candidate_restart_valid := current_lsn, candidate_restart_lsn := restart\<rparr>
                else slot);
          s2 = (if candidate_restart_valid s1 = InvalidXLogRecPtr then
                  s1\<lparr>candidate_restart_valid := current_lsn, candidate_restart_lsn := restart\<rparr>
                else s1)
      in if updated_lsn then LogicalConfirmReceivedLocation (confirmed_flush (data s2)) s2
         else s2)"

subsection \<open>Sequences of calls\<close>

text \<open>
  A consumer session is a sequence of acknowledgements and proposals on one slot.
  \<open>confirm_all\<close> runs acknowledgements only; \<open>slots_after\<close> lists the slot after each
  call of a mixed sequence, \<open>confirm_positions\<close> the acknowledged positions in it, and
  \<open>confirmed_after_confirms\<close> the \<open>confirmed_flush\<close> read after each acknowledgement.
\<close>

fun confirm_all :: "XLogRecPtr list \<Rightarrow> ReplicationSlot \<Rightarrow> ReplicationSlot" where
  "confirm_all [] slot = slot"
| "confirm_all (lsn # lsns) slot = confirm_all lsns (LogicalConfirmReceivedLocation lsn slot)"

datatype call =
    Confirm XLogRecPtr
  | IncreaseXmin XLogRecPtr TransactionId
  | IncreaseRestart XLogRecPtr XLogRecPtr

fun do_call :: "call \<Rightarrow> ReplicationSlot \<Rightarrow> ReplicationSlot" where
  "do_call (Confirm lsn) slot = LogicalConfirmReceivedLocation lsn slot"
| "do_call (IncreaseXmin current_lsn xmin) slot = LogicalIncreaseXminForSlot current_lsn xmin slot"
| "do_call (IncreaseRestart current_lsn restart) slot =
     LogicalIncreaseRestartDecodingForSlot current_lsn restart slot"

fun slots_after :: "call list \<Rightarrow> ReplicationSlot \<Rightarrow> ReplicationSlot list" where
  "slots_after [] slot = []"
| "slots_after (c # cs) slot = do_call c slot # slots_after cs (do_call c slot)"

fun confirm_positions :: "call list \<Rightarrow> XLogRecPtr list" where
  "confirm_positions [] = []"
| "confirm_positions (Confirm lsn # cs) = lsn # confirm_positions cs"
| "confirm_positions (c # cs) = confirm_positions cs"

fun confirmed_after_confirms :: "call list \<Rightarrow> ReplicationSlot \<Rightarrow> XLogRecPtr list" where
  "confirmed_after_confirms [] slot = []"
| "confirmed_after_confirms (Confirm lsn # cs) slot =
     confirmed_flush (data (do_call (Confirm lsn) slot)) #
     confirmed_after_confirms cs (do_call (Confirm lsn) slot)"
| "confirmed_after_confirms (c # cs) slot = confirmed_after_confirms cs (do_call c slot)"

subsection \<open>Predicates used in the proofs\<close>

text \<open>
  \<open>xmin_due\<close> and \<open>restart_due\<close> are the two adoption tests of
  \<open>LogicalConfirmReceivedLocation\<close>; \<open>set_confirmed\<close>, \<open>adopt_xmin\<close> and
  \<open>adopt_restart\<close> are the three groups of assignments it makes. The function is
  shown below to be their composition, case by case.
\<close>

definition xmin_due :: "XLogRecPtr \<Rightarrow> ReplicationSlot \<Rightarrow> bool" where
  "xmin_due lsn slot =
     (candidate_xmin_lsn slot \<noteq> InvalidXLogRecPtr \<and> candidate_xmin_lsn slot \<le> lsn \<and>
      TransactionIdIsValid (candidate_catalog_xmin slot) \<and>
      catalog_xmin (data slot) \<noteq> candidate_catalog_xmin slot)"

definition restart_due :: "XLogRecPtr \<Rightarrow> ReplicationSlot \<Rightarrow> bool" where
  "restart_due lsn slot =
     (candidate_restart_valid slot \<noteq> InvalidXLogRecPtr \<and> candidate_restart_valid slot \<le> lsn)"

definition set_confirmed :: "XLogRecPtr \<Rightarrow> ReplicationSlot \<Rightarrow> ReplicationSlot" where
  "set_confirmed lsn slot = slot\<lparr>data := (data slot)\<lparr>confirmed_flush := lsn\<rparr>\<rparr>"

definition adopt_xmin :: "ReplicationSlot \<Rightarrow> ReplicationSlot" where
  "adopt_xmin slot =
     slot\<lparr>data := (data slot)\<lparr>catalog_xmin := candidate_catalog_xmin slot\<rparr>,
          effective_catalog_xmin := candidate_catalog_xmin slot,
          candidate_catalog_xmin := InvalidTransactionId,
          candidate_xmin_lsn := InvalidXLogRecPtr\<rparr>"

definition adopt_restart :: "ReplicationSlot \<Rightarrow> ReplicationSlot" where
  "adopt_restart slot =
     slot\<lparr>data := (data slot)\<lparr>restart_lsn := candidate_restart_lsn slot\<rparr>,
          candidate_restart_lsn := InvalidXLogRecPtr,
          candidate_restart_valid := InvalidXLogRecPtr\<rparr>"

text \<open>
  The state of the xmin track between calls: the enforced value is the persisted one, and
  a pending candidate does not precede it. \<open>CreateInitDecodingContext\<close> sets
  \<open>effective_catalog_xmin\<close> and \<open>data.catalog_xmin\<close> to the same value on a slot
  without candidates, and every call keeps the property.
\<close>

definition xmin_track_ok :: "ReplicationSlot \<Rightarrow> bool" where
  "xmin_track_ok slot =
     (effective_catalog_xmin slot = catalog_xmin (data slot) \<and>
      (candidate_xmin_lsn slot = InvalidXLogRecPtr \<or>
       TransactionIdPrecedesOrEquals (catalog_xmin (data slot)) (candidate_catalog_xmin slot)))"

definition effective_le :: "ReplicationSlot \<Rightarrow> ReplicationSlot \<Rightarrow> bool" where
  "effective_le a b =
     TransactionIdPrecedesOrEquals (effective_catalog_xmin a) (effective_catalog_xmin b)"

subsection \<open>Example slots\<close>

text \<open>
  \<open>slot_fresh\<close>: a logical slot whose consumer has confirmed position 100, with no
  candidate pending. \<open>slot_pending\<close>: the same slot after a catalog xmin of 50 and a
  restart position of 95 have been proposed at position 150.
\<close>

definition slot_fresh :: ReplicationSlot where
  "slot_fresh =
     \<lparr>data = \<lparr>database = 1, catalog_xmin = 40, restart_lsn = 90, confirmed_flush = 100\<rparr>,
      effective_catalog_xmin = 40,
      candidate_catalog_xmin = 0, candidate_xmin_lsn = 0,
      candidate_restart_valid = 0, candidate_restart_lsn = 0\<rparr>"

definition slot_pending :: ReplicationSlot where
  "slot_pending =
     \<lparr>data = \<lparr>database = 1, catalog_xmin = 40, restart_lsn = 90, confirmed_flush = 100\<rparr>,
      effective_catalog_xmin = 40,
      candidate_catalog_xmin = 50, candidate_xmin_lsn = 150,
      candidate_restart_valid = 150, candidate_restart_lsn = 95\<rparr>"

text \<open>A session on \<open>slot_fresh\<close>: proposals interleaved with acknowledgements.\<close>

definition session_calls :: "call list" where
  "session_calls = [IncreaseXmin 150 50, Confirm 120, IncreaseRestart 150 95, Confirm 150,
                    IncreaseXmin 140 60, Confirm 160]"

subsection \<open>Errors and the backend's state\<close>

text \<open>
  \<open>ereport(ERROR, ...)\<close> and \<open>elog(ERROR, ...)\<close> do not return: they unwind to the
  innermost \<open>PG_TRY\<close> or to the top level, leaving memory as it is. A function that may
  raise therefore yields an \<open>outcome\<close>: \<open>Returns v b\<close> with its value and the
  backend's state, or \<open>Raises e b\<close> with the error and the state at the moment the
  error leaves the function. \<open>NullCall\<close> stands for a call through a null function
  pointer, which the callers of the wrappers exclude.
\<close>

datatype error = ERROR string

text \<open>
  A frame of \<open>error_context_stack\<close> as the wrappers push it: the \<open>callback_name\<close>
  and \<open>report_location\<close> of \<open>LogicalErrorCallbackState\<close> (its \<open>ctx\<close> is the one
  decoding context of the backend). The stack is the list of frames, innermost first;
  \<open>errcallback.previous = error_context_stack; error_context_stack = &errcallback\<close>
  conses a frame, and \<open>error_context_stack = errcallback.previous\<close> puts back the list
  saved on entry.
\<close>

record LogicalErrorCallbackState =
  callback_name :: string
  report_location :: XLogRecPtr

text \<open>
  The state of the backend that the wrappers and the plugin's callbacks act on: the error
  context stack, the output state of the \<open>LogicalDecodingContext\<close>
  (\<open>accept_writes\<close>, \<open>prepared_write\<close>, \<open>write_xid\<close>, \<open>write_location\<close>) and the
  \<open>PROC_IN_LOGICAL_DECODING\<close> flag of \<open>MyPgXact->vacuumFlags\<close>.
\<close>

record backend =
  error_context_stack :: "LogicalErrorCallbackState list"
  accept_writes :: bool
  prepared_write :: bool
  write_xid :: TransactionId
  write_location :: XLogRecPtr
  in_logical_decoding :: bool

datatype 'a outcome =
    Returns 'a backend
  | Raises error backend
  | NullCall

text \<open>
  The fields of a reassembled transaction and of a change that the wrappers read.
  \<open>change_lsn\<close> is the field \<open>lsn\<close> of \<open>ReorderBufferChange\<close>.
\<close>

record ReorderBufferTXN =
  xid :: TransactionId
  first_lsn :: XLogRecPtr
  final_lsn :: XLogRecPtr
  end_lsn :: XLogRecPtr

record ReorderBufferChange =
  change_lsn :: XLogRecPtr

type_synonym Relation = nat

subsection \<open>The plugin's callbacks and their wrappers\<close>

text \<open>
  \<open>OutputPluginCallbacks\<close>: a function pointer per callback, \<open>None\<close> for \<open>NULL\<close>.
  A callback gets the arguments of the C callback other than the context and acts on the
  backend's state; the options that \<open>startup_cb\<close> fills are part of that state.
\<close>

record OutputPluginCallbacks =
  startup_cb :: "(bool \<Rightarrow> backend \<Rightarrow> unit outcome) option"
  begin_cb :: "(ReorderBufferTXN \<Rightarrow> backend \<Rightarrow> unit outcome) option"
  change_cb ::
    "(ReorderBufferTXN \<Rightarrow> Relation \<Rightarrow> ReorderBufferChange \<Rightarrow> backend \<Rightarrow> unit outcome) option"
  commit_cb :: "(ReorderBufferTXN \<Rightarrow> XLogRecPtr \<Rightarrow> backend \<Rightarrow> unit outcome) option"
  message_cb ::
    "(ReorderBufferTXN option \<Rightarrow> XLogRecPtr \<Rightarrow> bool \<Rightarrow> string \<Rightarrow> string \<Rightarrow>
      backend \<Rightarrow> unit outcome) option"
  filter_by_origin_cb :: "(RepOriginId \<Rightarrow> backend \<Rightarrow> bool outcome) option"
  shutdown_cb :: "(backend \<Rightarrow> unit outcome) option"

text \<open>A call through a function pointer of the callback table.\<close>

definition call_cb :: "'f option \<Rightarrow> ('f \<Rightarrow> backend \<Rightarrow> 'a outcome) \<Rightarrow> backend \<Rightarrow> 'a outcome" where
  "call_cb cb args b = (case cb of None \<Rightarrow> NullCall | Some f \<Rightarrow> args f b)"

text \<open>
  The seven wrappers, statement by statement: push the frame, set the output state, call
  the callback, and after it has returned put back the stack saved on entry. No wrapper
  has a \<open>PG_TRY\<close>: when the callback raises, control leaves the wrapper at the call.
\<close>

definition startup_cb_wrapper :: "OutputPluginCallbacks \<Rightarrow> bool \<Rightarrow> backend \<Rightarrow> unit outcome" where
  "startup_cb_wrapper cbs is_init b =
     (let state = \<lparr>callback_name = ''startup'', report_location = InvalidXLogRecPtr\<rparr>;
          previous = error_context_stack b;
          b1 = b\<lparr>error_context_stack := state # previous\<rparr>;
          b2 = b1\<lparr>accept_writes := False\<rparr>
      in case call_cb (startup_cb cbs) (\<lambda>f. f is_init) b2 of
           Returns v b3 \<Rightarrow> Returns v (b3\<lparr>error_context_stack := previous\<rparr>)
         | Raises e b3 \<Rightarrow> Raises e b3
         | NullCall \<Rightarrow> NullCall)"






text \<open>
  \<open>message_cb_wrapper\<close> returns at once when the plugin has no message callback. The
  argument \<open>message_size\<close> is the length of \<open>message\<close>.
\<close>

definition message_cb_wrapper ::
  "OutputPluginCallbacks \<Rightarrow> ReorderBufferTXN option \<Rightarrow> XLogRecPtr \<Rightarrow> bool \<Rightarrow> string \<Rightarrow> string \<Rightarrow>
   backend \<Rightarrow> unit outcome" where
  "message_cb_wrapper cbs txn message_lsn transactional prefix message b =
     (if message_cb cbs = None then Returns () b
      else
        let state = \<lparr>callback_name = ''message'', report_location = message_lsn\<rparr>;
            previous = error_context_stack b;
            b1 = b\<lparr>error_context_stack := state # previous\<rparr>;
            b2 = b1\<lparr>accept_writes := True,
                    write_xid := (case txn of Some t \<Rightarrow> xid t | None \<Rightarrow> InvalidTransactionId),
                    write_location := message_lsn\<rparr>
        in case call_cb (message_cb cbs) (\<lambda>f. f txn message_lsn transactional prefix message) b2 of
             Returns v b3 \<Rightarrow> Returns v (b3\<lparr>error_context_stack := previous\<rparr>)
           | Raises e b3 \<Rightarrow> Raises e b3
           | NullCall \<Rightarrow> NullCall)"

text \<open>
  \<open>LoadOutputPlugin\<close>: \<open>plugin_init\<close> is what \<open>load_external_function\<close> found for
  \<open>_PG_output_plugin_init\<close>, \<open>None\<close> when the library has no such symbol; it fills
  the callback table \<open>callbacks0\<close> it is given.
\<close>

definition LoadOutputPlugin ::
  "OutputPluginCallbacks \<Rightarrow> (OutputPluginCallbacks \<Rightarrow> OutputPluginCallbacks) option \<Rightarrow>
   error + OutputPluginCallbacks" where
  "LoadOutputPlugin callbacks0 plugin_init =
     (case plugin_init of
        None \<Rightarrow> Inl (ERROR ''output plugins have to declare the _PG_output_plugin_init symbol'')
      | Some init \<Rightarrow>
          let callbacks1 = init callbacks0
          in if begin_cb callbacks1 = None then
               Inl (ERROR ''output plugins have to register a begin callback'')
             else if change_cb callbacks1 = None then
               Inl (ERROR ''output plugins have to register a change callback'')
             else if commit_cb callbacks1 = None then
               Inl (ERROR ''output plugins have to register a commit callback'')
             else Inr callbacks1)"









subsection \<open>Example plugins\<close>

text \<open>
  \<open>no_callbacks\<close> is the zeroed table \<open>palloc0\<close> gives. \<open>quiet_plugin_init\<close>
  registers the three mandatory callbacks and no message callback;
  \<open>failing_plugin_init\<close> registers a begin callback that raises;
  \<open>nesting_plugin_init\<close> one that pushes a frame of its own and raises from inside
  it; \<open>incomplete_plugin_init\<close> registers no begin callback.
\<close>

definition no_callbacks :: OutputPluginCallbacks where
  "no_callbacks =
     \<lparr>startup_cb = None, begin_cb = None, change_cb = None, commit_cb = None,
      message_cb = None, filter_by_origin_cb = None, shutdown_cb = None\<rparr>"

definition quiet_plugin_init :: "OutputPluginCallbacks \<Rightarrow> OutputPluginCallbacks" where
  "quiet_plugin_init cbs =
     cbs\<lparr>begin_cb := Some (\<lambda>txn b. Returns () b),
         change_cb := Some (\<lambda>txn relation change b. Returns () b),
         commit_cb := Some (\<lambda>txn commit_lsn b. Returns () b)\<rparr>"


definition incomplete_plugin_init :: "OutputPluginCallbacks \<Rightarrow> OutputPluginCallbacks" where
  "incomplete_plugin_init cbs =
     cbs\<lparr>change_cb := Some (\<lambda>txn relation change b. Returns () b),
         commit_cb := Some (\<lambda>txn commit_lsn b. Returns () b),
         message_cb := Some (\<lambda>txn message_lsn transactional prefix message b. Returns () b)\<rparr>"


definition backend0 :: backend where
  "backend0 =
     \<lparr>error_context_stack = [], accept_writes = False, prepared_write = False,
      write_xid = 0, write_location = 0, in_logical_decoding = False\<rparr>"

definition txn0 :: ReorderBufferTXN where
  "txn0 = \<lparr>xid = 700, first_lsn = 110, final_lsn = 130, end_lsn = 140\<rparr>"

subsection \<open>Creating a decoding context for a used slot\<close>

text \<open>
  What \<open>CreateDecodingContext\<close> reads from its surroundings: the database of the
  backend, \<open>ShmemVariableCache->oldestCatalogXmin\<close>, what
  \<open>load_external_function\<close> finds for the slot's plugin, whether
  \<open>XLogReaderAllocate\<close> returned a reader, and \<open>IsTransactionOrTransactionBlock()\<close>.
\<close>

record environment =
  MyDatabaseId :: Oid
  oldestCatalogXmin :: TransactionId
  output_plugin_init :: "(OutputPluginCallbacks \<Rightarrow> OutputPluginCallbacks) option"
  reader_allocated :: bool
  IsTransactionOrTransactionBlock :: bool

text \<open>
  Modelled from the spec: snapbuild.c is not among the sources. The spec has a resumed
  session start from the resolved start position; the snapshot builder is modelled as the
  record of the two arguments \<open>AllocateSnapshotBuilder\<close> is called with. The decoding
  context holds the callback table and the snapshot builder; its output state is in
  \<open>backend\<close>.
\<close>

record SnapBuild =
  initial_xmin_horizon :: TransactionId
  start_decoding_at :: XLogRecPtr

record LogicalDecodingContext =
  callbacks :: OutputPluginCallbacks
  snapshot_builder :: SnapBuild

text \<open>
  \<open>EnsureActiveLogicalSlotValid\<close>, \<open>StartupDecodingContext\<close> (the context is
  zeroed by \<open>palloc0\<close>, the plugin is loaded, the backend is flagged as decoding when
  outside a transaction, the reader is allocated) and \<open>CreateDecodingContext\<close>, whose
  argument \<open>MyReplicationSlot\<close> is the global of that name, \<open>None\<close> for \<open>NULL\<close>.
  Messages below \<open>ERROR\<close> (\<open>DEBUG1\<close>, \<open>LOG\<close>) are not modelled.
\<close>

definition EnsureActiveLogicalSlotValid :: "environment \<Rightarrow> ReplicationSlot \<Rightarrow> error + unit" where
  "EnsureActiveLogicalSlotValid env slot =
     (let shmem_catalog_xmin = oldestCatalogXmin env
      in if \<not> TransactionIdIsValid shmem_catalog_xmin \<or>
            TransactionIdFollows shmem_catalog_xmin (catalog_xmin (data slot))
         then Inl (ERROR ''replication slot requires catalogs removed by master'')
         else Inr ())"

definition StartupDecodingContext ::
  "environment \<Rightarrow> XLogRecPtr \<Rightarrow> TransactionId \<Rightarrow> backend \<Rightarrow> LogicalDecodingContext outcome" where
  "StartupDecodingContext env start_lsn xmin_horizon b =
     (let b1 = b\<lparr>accept_writes := False, prepared_write := False,
                  write_xid := 0, write_location := 0\<rparr>
      in case LoadOutputPlugin no_callbacks (output_plugin_init env) of
           Inl e \<Rightarrow> Raises e b1
         | Inr cbs \<Rightarrow>
             let b2 = (if \<not> IsTransactionOrTransactionBlock env
                       then b1\<lparr>in_logical_decoding := True\<rparr> else b1)
             in if \<not> reader_allocated env then Raises (ERROR ''out of memory'') b2
                else Returns
                  \<lparr>callbacks = cbs,
                   snapshot_builder =
                     \<lparr>initial_xmin_horizon = xmin_horizon, start_decoding_at = start_lsn\<rparr>\<rparr>
                  b2)"

definition CreateDecodingContext ::
  "XLogRecPtr \<Rightarrow> environment \<Rightarrow> ReplicationSlot option \<Rightarrow> backend \<Rightarrow>
   LogicalDecodingContext outcome" where
  "CreateDecodingContext start_lsn env MyReplicationSlot b =
     (case MyReplicationSlot of
        None \<Rightarrow> Raises (ERROR ''cannot perform logical decoding without an acquired slot'') b
      | Some slot \<Rightarrow>
          if SlotIsPhysical slot then
            Raises (ERROR ''cannot use physical replication slot for logical decoding'') b
          else if database (data slot) \<noteq> MyDatabaseId env then
            Raises (ERROR ''replication slot was not created in this database'') b
          else
            let start_lsn1 =
                  (if start_lsn = InvalidXLogRecPtr then confirmed_flush (data slot)
                   else if start_lsn < confirmed_flush (data slot) then confirmed_flush (data slot)
                   else start_lsn)
            in case EnsureActiveLogicalSlotValid env slot of
                 Inl e \<Rightarrow> Raises e b
               | Inr u \<Rightarrow>
                   (case StartupDecodingContext env start_lsn1 InvalidTransactionId b of
                      Raises e b1 \<Rightarrow> Raises e b1
                    | NullCall \<Rightarrow> NullCall
                    | Returns ctx b1 \<Rightarrow>
                        if startup_cb (callbacks ctx) \<noteq> None then
                          (case startup_cb_wrapper (callbacks ctx) False b1 of
                             Returns v b2 \<Rightarrow> Returns ctx b2
                           | Raises e b2 \<Rightarrow> Raises e b2
                           | NullCall \<Rightarrow> NullCall)
                        else Returns ctx b1))"

text \<open>A backend connected to database 1 that loads the quiet plugin.\<close>

definition env0 :: environment where
  "env0 =
     \<lparr>MyDatabaseId = 1, oldestCatalogXmin = 40, output_plugin_init = Some quiet_plugin_init,
      reader_allocated = True, IsTransactionOrTransactionBlock = False\<rparr>"

subsection \<open>LogicalConfirmReceivedLocation: the order of its effects\<close>

text \<open>
  The steps of \<open>LogicalConfirmReceivedLocation\<close> that act on the slot: taking and
  releasing \<open>slot->mutex\<close>, each assignment to a field of the slot, marking the slot
  dirty, saving it, and the two recomputations of the global requirements.
\<close>

datatype step =
    Acquire
  | Release
  | Set_confirmed_flush
  | Set_catalog_xmin
  | Clear_candidate_catalog_xmin
  | Clear_candidate_xmin_lsn
  | Set_restart_lsn
  | Clear_candidate_restart_lsn
  | Clear_candidate_restart_valid
  | MarkDirty
  | Save
  | Set_effective_catalog_xmin
  | ComputeRequiredXmin
  | ComputeRequiredLSN

text \<open>
  What the steps act on: the slot in shared memory, whether its spinlock is held, its
  dirty flag, and the copy of \<open>slot->data\<close> in the slot's state file. A \<open>run\<close> is the
  state now and, for each step taken so far, the state right after it: the states a crash
  can interrupt the call in.
\<close>

record shared =
  slot_mem :: ReplicationSlot
  mutex :: bool
  dirty :: bool
  on_disk :: ReplicationSlotPersistentData

record run =
  now :: shared
  past :: "(step \<times> shared) list"

text \<open>
  \<open>do_step\<close> takes one step and records it; \<open>run_steps\<close> takes a sequence of steps in
  program order.
\<close>

definition do_step :: "step \<Rightarrow> (shared \<Rightarrow> shared) \<Rightarrow> run \<Rightarrow> run" where
  "do_step e f r = \<lparr>now = f (now r), past = past r @ [(e, f (now r))]\<rparr>"

fun run_steps :: "(run \<Rightarrow> run) list \<Rightarrow> run \<Rightarrow> run" where
  "run_steps [] r = r"
| "run_steps (f # fs) r = run_steps fs (f r)"

text \<open>The spinlock, and an assignment to fields of \<open>MyReplicationSlot\<close>.\<close>

definition SpinLockAcquire :: "run \<Rightarrow> run" where
  "SpinLockAcquire = do_step Acquire (\<lambda>w. w\<lparr>mutex := True\<rparr>)"

definition SpinLockRelease :: "run \<Rightarrow> run" where
  "SpinLockRelease = do_step Release (\<lambda>w. w\<lparr>mutex := False\<rparr>)"

definition assign :: "step \<Rightarrow> (ReplicationSlot \<Rightarrow> ReplicationSlot) \<Rightarrow> run \<Rightarrow> run" where
  "assign e f = do_step e (\<lambda>w. w\<lparr>slot_mem := f (slot_mem w)\<rparr>)"

text \<open>
  Modelled from the spec: slot.c is not among the sources. The spec has the slot's new
  state durably persisted by this pair of calls, and the enforced value reloaded from the
  durable value on restart; the comment in \<open>LogicalConfirmReceivedLocation\<close> says the
  same (after a crash the effective xmin is set to the persisted xmin).
  \<open>ReplicationSlotMarkDirty\<close> sets the dirty flag, \<open>ReplicationSlotSave\<close> writes
  \<open>slot->data\<close> to the state file when the slot is dirty, and \<open>RestoreSlotFromDisk\<close>
  builds the slot a restart finds: the persisted data, the enforced catalog xmin equal to
  the persisted one, no candidates. The recomputations of the global xmin and LSN
  requirements read the slot and do not change it.
\<close>

definition ReplicationSlotMarkDirty :: "run \<Rightarrow> run" where
  "ReplicationSlotMarkDirty = do_step MarkDirty (\<lambda>w. w\<lparr>dirty := True\<rparr>)"

definition ReplicationSlotSave :: "run \<Rightarrow> run" where
  "ReplicationSlotSave =
     do_step Save (\<lambda>w. if dirty w then w\<lparr>on_disk := data (slot_mem w), dirty := False\<rparr> else w)"

definition ReplicationSlotsComputeRequiredXmin :: "run \<Rightarrow> run" where
  "ReplicationSlotsComputeRequiredXmin = do_step ComputeRequiredXmin (\<lambda>w. w)"

definition ReplicationSlotsComputeRequiredLSN :: "run \<Rightarrow> run" where
  "ReplicationSlotsComputeRequiredLSN = do_step ComputeRequiredLSN (\<lambda>w. w)"

definition RestoreSlotFromDisk :: "ReplicationSlotPersistentData \<Rightarrow> ReplicationSlot" where
  "RestoreSlotFromDisk cp =
     \<lparr>data = cp,
      effective_catalog_xmin = catalog_xmin cp,
      candidate_catalog_xmin = InvalidTransactionId,
      candidate_xmin_lsn = InvalidXLogRecPtr,
      candidate_restart_valid = InvalidXLogRecPtr,
      candidate_restart_lsn = InvalidXLogRecPtr\<rparr>"

text \<open>
  \<open>LogicalConfirmReceivedLocation\<close> step by step, in the order of the source:
  \<open>r1\<close> is the run after the lock is taken and \<open>confirmed_flush\<close> assigned, \<open>r2\<close>
  after the xmin track, \<open>r3\<close> after the restart track, \<open>r4\<close> after the lock is
  released, \<open>r5\<close> after the slot is saved when either track was updated; the last block
  takes the lock again to assign \<open>effective_catalog_xmin\<close>.
\<close>

definition LogicalConfirmReceivedLocation_traced :: "XLogRecPtr \<Rightarrow> run \<Rightarrow> run" where
  "LogicalConfirmReceivedLocation_traced lsn r =
     (if candidate_xmin_lsn (slot_mem (now r)) \<noteq> InvalidXLogRecPtr \<or>
         candidate_restart_valid (slot_mem (now r)) \<noteq> InvalidXLogRecPtr
      then
        let r1 = run_steps
                   [SpinLockAcquire,
                    assign Set_confirmed_flush (\<lambda>s. s\<lparr>data := (data s)\<lparr>confirmed_flush := lsn\<rparr>\<rparr>)] r;
            updated_xmin =
              (candidate_xmin_lsn (slot_mem (now r1)) \<noteq> InvalidXLogRecPtr \<and>
               candidate_xmin_lsn (slot_mem (now r1)) \<le> lsn \<and>
               TransactionIdIsValid (candidate_catalog_xmin (slot_mem (now r1))) \<and>
               catalog_xmin (data (slot_mem (now r1))) \<noteq> candidate_catalog_xmin (slot_mem (now r1)));
            r2 = (if updated_xmin then
                    run_steps
                      [assign Set_catalog_xmin
                         (\<lambda>s. s\<lparr>data := (data s)\<lparr>catalog_xmin := candidate_catalog_xmin s\<rparr>\<rparr>),
                       assign Clear_candidate_catalog_xmin
                         (\<lambda>s. s\<lparr>candidate_catalog_xmin := InvalidTransactionId\<rparr>),
                       assign Clear_candidate_xmin_lsn
                         (\<lambda>s. s\<lparr>candidate_xmin_lsn := InvalidXLogRecPtr\<rparr>)] r1
                  else r1);
            updated_restart =
              (candidate_restart_valid (slot_mem (now r2)) \<noteq> InvalidXLogRecPtr \<and>
               candidate_restart_valid (slot_mem (now r2)) \<le> lsn);
            r3 = (if updated_restart then
                    run_steps
                      [assign Set_restart_lsn
                         (\<lambda>s. s\<lparr>data := (data s)\<lparr>restart_lsn := candidate_restart_lsn s\<rparr>\<rparr>),
                       assign Clear_candidate_restart_lsn
                         (\<lambda>s. s\<lparr>candidate_restart_lsn := InvalidXLogRecPtr\<rparr>),
                       assign Clear_candidate_restart_valid
                         (\<lambda>s. s\<lparr>candidate_restart_valid := InvalidXLogRecPtr\<rparr>)] r2
                  else r2);
            r4 = SpinLockRelease r3;
            r5 = (if updated_xmin \<or> updated_restart then
                    run_steps [ReplicationSlotMarkDirty, ReplicationSlotSave] r4
                  else r4)
        in if updated_xmin then
             run_steps
               [SpinLockAcquire,
                assign Set_effective_catalog_xmin
                  (\<lambda>s. s\<lparr>effective_catalog_xmin := catalog_xmin (data s)\<rparr>),
                SpinLockRelease,
                ReplicationSlotsComputeRequiredXmin,
                ReplicationSlotsComputeRequiredLSN] r5
           else r5
      else
        run_steps
          [SpinLockAcquire,
           assign Set_confirmed_flush (\<lambda>s. s\<lparr>data := (data s)\<lparr>confirmed_flush := lsn\<rparr>\<rparr>),
           SpinLockRelease] r)"

text \<open>
  What is read off a recorded step: the step, whether the spinlock is held, the catalog
  xmin enforced in memory, and the catalog xmin a restart after a crash at this point
  would enforce. \<open>lock_held_during\<close> lists, for the occurrences of one step in a run,
  whether the spinlock was held.
\<close>

definition observe :: "step \<times> shared \<Rightarrow> step \<times> bool \<times> TransactionId \<times> TransactionId" where
  "observe x =
     (fst x, mutex (snd x), effective_catalog_xmin (slot_mem (snd x)),
      effective_catalog_xmin (RestoreSlotFromDisk (on_disk (snd x))))"

definition start_run :: "shared \<Rightarrow> run" where
  "start_run w = \<lparr>now = w, past = []\<rparr>"

definition shared_pending :: shared where
  "shared_pending =
     \<lparr>slot_mem = slot_pending, mutex = False, dirty = False,
      on_disk = \<lparr>database = 1, catalog_xmin = 40, restart_lsn = 90, confirmed_flush = 100\<rparr>\<rparr>"

definition lock_held_during :: "step \<Rightarrow> run \<Rightarrow> bool list" where
  "lock_held_during e r = map (\<lambda>x. mutex (snd x)) (filter (\<lambda>x. fst x = e) (past r))"

text \<open>
  The steps of the call as one sequence, given which adoption tests succeed on the slot
  at the start; the traced function is shown below to run exactly these.
\<close>

definition xmin_steps :: "(run \<Rightarrow> run) list" where
  "xmin_steps =
     [assign Set_catalog_xmin
        (\<lambda>s. s\<lparr>data := (data s)\<lparr>catalog_xmin := candidate_catalog_xmin s\<rparr>\<rparr>),
      assign Clear_candidate_catalog_xmin
        (\<lambda>s. s\<lparr>candidate_catalog_xmin := InvalidTransactionId\<rparr>),
      assign Clear_candidate_xmin_lsn
        (\<lambda>s. s\<lparr>candidate_xmin_lsn := InvalidXLogRecPtr\<rparr>)]"

definition restart_steps :: "(run \<Rightarrow> run) list" where
  "restart_steps =
     [assign Set_restart_lsn
        (\<lambda>s. s\<lparr>data := (data s)\<lparr>restart_lsn := candidate_restart_lsn s\<rparr>\<rparr>),
      assign Clear_candidate_restart_lsn
        (\<lambda>s. s\<lparr>candidate_restart_lsn := InvalidXLogRecPtr\<rparr>),
      assign Clear_candidate_restart_valid
        (\<lambda>s. s\<lparr>candidate_restart_valid := InvalidXLogRecPtr\<rparr>)]"

definition confirm_steps :: "XLogRecPtr \<Rightarrow> ReplicationSlot \<Rightarrow> (run \<Rightarrow> run) list" where
  "confirm_steps lsn slot =
     [SpinLockAcquire,
      assign Set_confirmed_flush (\<lambda>s. s\<lparr>data := (data s)\<lparr>confirmed_flush := lsn\<rparr>\<rparr>)] @
     (if xmin_due lsn slot then xmin_steps else []) @
     (if restart_due lsn slot then restart_steps else []) @
     [SpinLockRelease] @
     (if xmin_due lsn slot \<or> restart_due lsn slot
      then [ReplicationSlotMarkDirty, ReplicationSlotSave] else []) @
     (if xmin_due lsn slot
      then [SpinLockAcquire,
            assign Set_effective_catalog_xmin
              (\<lambda>s. s\<lparr>effective_catalog_xmin := catalog_xmin (data s)\<rparr>),
            SpinLockRelease,
            ReplicationSlotsComputeRequiredXmin,
            ReplicationSlotsComputeRequiredLSN]
      else [])"

section \<open>Properties\<close>

subsection \<open>The retention advancement protocol\<close>

lemma confirm_both:
  "xmin_due lsn slot \<Longrightarrow> restart_due lsn slot \<Longrightarrow>
   LogicalConfirmReceivedLocation lsn slot = adopt_restart (adopt_xmin (set_confirmed lsn slot))"
  unfolding xmin_due_def restart_due_def LogicalConfirmReceivedLocation_def Let_def
    adopt_xmin_def adopt_restart_def set_confirmed_def
  by simp

lemma confirm_xmin_only:
  "xmin_due lsn slot \<Longrightarrow> \<not> restart_due lsn slot \<Longrightarrow>
   LogicalConfirmReceivedLocation lsn slot = adopt_xmin (set_confirmed lsn slot)"
  unfolding xmin_due_def restart_due_def LogicalConfirmReceivedLocation_def Let_def
    adopt_xmin_def adopt_restart_def set_confirmed_def
  by auto

lemma confirm_restart_only:
  "\<not> xmin_due lsn slot \<Longrightarrow> restart_due lsn slot \<Longrightarrow>
   LogicalConfirmReceivedLocation lsn slot = adopt_restart (set_confirmed lsn slot)"
  unfolding xmin_due_def restart_due_def LogicalConfirmReceivedLocation_def Let_def
    adopt_xmin_def adopt_restart_def set_confirmed_def
  by auto

lemma confirm_none:
  "\<not> xmin_due lsn slot \<Longrightarrow> \<not> restart_due lsn slot \<Longrightarrow>
   LogicalConfirmReceivedLocation lsn slot = set_confirmed lsn slot"
  unfolding xmin_due_def restart_due_def LogicalConfirmReceivedLocation_def Let_def
    adopt_xmin_def adopt_restart_def set_confirmed_def
  by auto

lemma due_after [simp]:
  "xmin_due lsn (set_confirmed p slot) = xmin_due lsn slot"
  "restart_due lsn (set_confirmed p slot) = restart_due lsn slot"
  "\<not> xmin_due lsn (adopt_xmin slot)"
  "\<not> restart_due lsn (adopt_restart slot)"
  "xmin_due lsn (adopt_restart slot) = xmin_due lsn slot"
  "restart_due lsn (adopt_xmin slot) = restart_due lsn slot"
  by (simp_all add: xmin_due_def restart_due_def adopt_xmin_def adopt_restart_def set_confirmed_def)

lemma set_confirmed_simps [simp]:
  "set_confirmed lsn (set_confirmed p slot) = set_confirmed lsn slot"
  "set_confirmed lsn (adopt_xmin slot) = adopt_xmin (set_confirmed lsn slot)"
  "set_confirmed lsn (adopt_restart slot) = adopt_restart (set_confirmed lsn slot)"
  by (simp_all add: adopt_xmin_def adopt_restart_def set_confirmed_def)

lemma confirm_cases:
  obtains (both) "xmin_due lsn slot" "restart_due lsn slot"
      "LogicalConfirmReceivedLocation lsn slot = adopt_restart (adopt_xmin (set_confirmed lsn slot))"
    | (xmin_only) "xmin_due lsn slot" "\<not> restart_due lsn slot"
      "LogicalConfirmReceivedLocation lsn slot = adopt_xmin (set_confirmed lsn slot)"
    | (restart_only) "\<not> xmin_due lsn slot" "restart_due lsn slot"
      "LogicalConfirmReceivedLocation lsn slot = adopt_restart (set_confirmed lsn slot)"
    | (none) "\<not> xmin_due lsn slot" "\<not> restart_due lsn slot"
      "LogicalConfirmReceivedLocation lsn slot = set_confirmed lsn slot"
  using confirm_both confirm_xmin_only confirm_restart_only confirm_none by blast

lemma confirm_idem:
  "LogicalConfirmReceivedLocation lsn (LogicalConfirmReceivedLocation lsn slot) =
   LogicalConfirmReceivedLocation lsn slot"
proof (cases lsn slot rule: confirm_cases)
  case both
  show ?thesis unfolding both(3) by (simp add: confirm_none)
next
  case xmin_only
  show ?thesis unfolding xmin_only(3) using xmin_only(2)
    by (simp add: confirm_none)
next
  case restart_only
  show ?thesis unfolding restart_only(3) using restart_only(1)
    by (simp add: confirm_none)
next
  case none
  show ?thesis unfolding none(3) using none(1,2)
    by (simp add: confirm_none)
qed

lemma confirm_cf: "confirmed_flush (data (LogicalConfirmReceivedLocation lsn slot)) = lsn"
  by (cases lsn slot rule: confirm_cases)
     (simp_all add: adopt_xmin_def adopt_restart_def set_confirmed_def)

lemma xmin_not_due: "lsn < candidate_xmin_lsn slot \<Longrightarrow> \<not> xmin_due lsn slot"
  by (auto simp: xmin_due_def)

lemma restart_not_due: "lsn < candidate_restart_valid slot \<Longrightarrow> \<not> restart_due lsn slot"
  by (auto simp: restart_due_def)

lemma confirm_xmin_track_kept:
  assumes "\<not> xmin_due lsn slot"
  shows "catalog_xmin (data (LogicalConfirmReceivedLocation lsn slot)) = catalog_xmin (data slot)"
    and "effective_catalog_xmin (LogicalConfirmReceivedLocation lsn slot) = effective_catalog_xmin slot"
    and "candidate_catalog_xmin (LogicalConfirmReceivedLocation lsn slot) = candidate_catalog_xmin slot"
    and "candidate_xmin_lsn (LogicalConfirmReceivedLocation lsn slot) = candidate_xmin_lsn slot"
  using assms
  by (cases lsn slot rule: confirm_cases; simp add: adopt_restart_def set_confirmed_def)+

lemma confirm_restart_track_kept:
  assumes "\<not> restart_due lsn slot"
  shows "restart_lsn (data (LogicalConfirmReceivedLocation lsn slot)) = restart_lsn (data slot)"
    and "candidate_restart_lsn (LogicalConfirmReceivedLocation lsn slot) = candidate_restart_lsn slot"
    and "candidate_restart_valid (LogicalConfirmReceivedLocation lsn slot) = candidate_restart_valid slot"
  using assms
  by (cases lsn slot rule: confirm_cases; simp add: adopt_xmin_def set_confirmed_def)+

lemma sint_neg_of_pos:
  fixes w :: "32 word"
  assumes "0 < sint w"
  shows "sint (- w) < 0"
proof -
  have lt: "sint w < 2 ^ 31" using sint_lt [of w] by simp
  have "sint (- w) = signed_take_bit 31 (- sint w)"
    using sint_word_minus [of w] by simp
  also have "\<dots> = - sint w"
    using assms lt by (simp add: signed_take_bit_int_eq_self_iff)
  finally show ?thesis using assms by simp
qed

lemma precedes_or_equals_total:
  "\<not> TransactionIdPrecedesOrEquals a b \<Longrightarrow> TransactionIdPrecedesOrEquals b a"
proof -
  assume n: "\<not> TransactionIdPrecedesOrEquals a b"
  show ?thesis
  proof (cases "\<not> TransactionIdIsNormal a \<or> \<not> TransactionIdIsNormal b")
    case True
    with n have "\<not> a \<le> b" by (simp add: TransactionIdPrecedesOrEquals_def)
    then have "b \<le> a" by simp
    with True show ?thesis by (auto simp: TransactionIdPrecedesOrEquals_def)
  next
    case False
    with n have "0 < sint (a - b)" by (simp add: TransactionIdPrecedesOrEquals_def)
    from sint_neg_of_pos [OF this] have "sint (b - a) < 0" by simp
    with False show ?thesis by (simp add: TransactionIdPrecedesOrEquals_def)
  qed
qed

lemma precedes_or_equals_refl: "TransactionIdPrecedesOrEquals a a"
  by (simp add: TransactionIdPrecedesOrEquals_def)

lemma confirm_ok: "xmin_track_ok slot \<Longrightarrow> xmin_track_ok (LogicalConfirmReceivedLocation lsn slot)"
  by (cases lsn slot rule: confirm_cases)
     (simp_all add: xmin_track_ok_def adopt_xmin_def adopt_restart_def set_confirmed_def)

lemma confirm_effective_le:
  "xmin_track_ok slot \<Longrightarrow> effective_le slot (LogicalConfirmReceivedLocation lsn slot)"
proof (cases lsn slot rule: confirm_cases)
  case both
  then show "xmin_track_ok slot \<Longrightarrow> ?thesis"
    by (auto simp: effective_le_def xmin_track_ok_def xmin_due_def adopt_xmin_def adopt_restart_def
        set_confirmed_def)
next
  case xmin_only
  then show "xmin_track_ok slot \<Longrightarrow> ?thesis"
    by (auto simp: effective_le_def xmin_track_ok_def xmin_due_def adopt_xmin_def
        set_confirmed_def)
next
  case restart_only
  then show ?thesis
    by (simp add: effective_le_def adopt_restart_def set_confirmed_def precedes_or_equals_refl)
next
  case none
  then show ?thesis
    by (simp add: effective_le_def set_confirmed_def precedes_or_equals_refl)
qed

lemma xmin_candidate_ok:
  "xmin_track_ok slot \<Longrightarrow> \<not> TransactionIdPrecedesOrEquals xmin (catalog_xmin (data slot)) \<Longrightarrow>
   xmin_track_ok (slot\<lparr>candidate_catalog_xmin := xmin, candidate_xmin_lsn := current_lsn\<rparr>)"
  by (simp add: xmin_track_ok_def precedes_or_equals_total)

lemma increase_xmin_ok:
  "xmin_track_ok slot \<Longrightarrow> xmin_track_ok (LogicalIncreaseXminForSlot current_lsn xmin slot)"
  unfolding LogicalIncreaseXminForSlot_def Let_def
  by (auto intro!: confirm_ok intro: xmin_candidate_ok)

lemma increase_xmin_effective_le:
  assumes "xmin_track_ok slot"
  shows "effective_le slot (LogicalIncreaseXminForSlot current_lsn xmin slot)"
proof -
  let ?s1 = "slot\<lparr>candidate_catalog_xmin := xmin, candidate_xmin_lsn := current_lsn\<rparr>"
  have r: "effective_le slot slot" by (simp add: effective_le_def precedes_or_equals_refl)
  have r1: "effective_le slot ?s1" by (simp add: effective_le_def precedes_or_equals_refl)
  have "\<not> TransactionIdPrecedesOrEquals xmin (catalog_xmin (data slot)) \<Longrightarrow>
        effective_le slot (LogicalConfirmReceivedLocation (confirmed_flush (data ?s1)) ?s1)"
    using confirm_effective_le [OF xmin_candidate_ok [OF assms], of xmin current_lsn "confirmed_flush (data ?s1)"]
    by (simp add: effective_le_def)
  with r r1 show ?thesis
    unfolding LogicalIncreaseXminForSlot_def Let_def by simp
qed

lemma restart_candidate_ok:
  "xmin_track_ok (slot\<lparr>candidate_restart_valid := v, candidate_restart_lsn := r\<rparr>) = xmin_track_ok slot"
  by (simp add: xmin_track_ok_def)

lemma increase_restart_ok:
  "xmin_track_ok slot \<Longrightarrow> xmin_track_ok (LogicalIncreaseRestartDecodingForSlot current_lsn restart slot)"
  unfolding LogicalIncreaseRestartDecodingForSlot_def Let_def
  by (auto intro!: confirm_ok simp: restart_candidate_ok)

lemma effective_le_refl: "effective_le slot slot"
  by (simp add: effective_le_def precedes_or_equals_refl)

lemma increase_restart_effective_le:
  assumes "xmin_track_ok slot"
  shows "effective_le slot (LogicalIncreaseRestartDecodingForSlot current_lsn restart slot)"
proof -
  have e: "effective_le slot (LogicalConfirmReceivedLocation lsn s)"
    if "xmin_track_ok s" "effective_catalog_xmin s = effective_catalog_xmin slot" for s lsn
    using confirm_effective_le [OF that(1), of lsn] that(2) by (simp add: effective_le_def)
  show ?thesis
    unfolding LogicalIncreaseRestartDecodingForSlot_def Let_def
    using assms
    by (auto intro!: e simp: restart_candidate_ok effective_le_refl)
       (simp_all add: effective_le_def precedes_or_equals_refl)
qed

lemma increase_xmin_confirmed:
  "confirmed_flush (data (LogicalIncreaseXminForSlot current_lsn xmin slot)) =
   confirmed_flush (data slot)"
  unfolding LogicalIncreaseXminForSlot_def Let_def
  by (simp add: confirm_cf)

lemma increase_restart_confirmed:
  "confirmed_flush (data (LogicalIncreaseRestartDecodingForSlot current_lsn restart slot)) =
   confirmed_flush (data slot)"
  unfolding LogicalIncreaseRestartDecodingForSlot_def Let_def
  by (simp add: confirm_cf)

lemma do_call_ok: "xmin_track_ok slot \<Longrightarrow> xmin_track_ok (do_call c slot)"
  by (cases c) (simp_all add: confirm_ok increase_xmin_ok increase_restart_ok)

lemma do_call_effective_le: "xmin_track_ok slot \<Longrightarrow> effective_le slot (do_call c slot)"
  by (cases c)
     (simp_all add: confirm_effective_le increase_xmin_effective_le increase_restart_effective_le)

lemma confirmed_after_confirms_eq: "confirmed_after_confirms cs slot = confirm_positions cs"
  by (induction cs slot rule: confirmed_after_confirms.induct) (simp_all add: confirm_cf)

lemma effective_successively:
  "xmin_track_ok slot \<Longrightarrow> successively effective_le (slot # slots_after cs slot)"
proof (induction cs arbitrary: slot)
  case Nil
  then show ?case by simp
next
  case (Cons c cs)
  from Cons.IH [OF do_call_ok [OF Cons.prems]] do_call_effective_le [OF Cons.prems]
  show ?case by simp
qed

lemma proposals_keep_confirmed:
  "confirmed_flush (data (do_call (IncreaseXmin current_lsn xmin) slot)) = confirmed_flush (data slot)"
  "confirmed_flush (data (do_call (IncreaseRestart current_lsn restart) slot)) = confirmed_flush (data slot)"
  by (simp_all add: increase_xmin_confirmed increase_restart_confirmed)

lemmas xid_defs = InvalidXLogRecPtr_def InvalidTransactionId_def FirstNormalTransactionId_def
  TransactionIdIsValid_def TransactionIdIsNormal_def TransactionIdPrecedesOrEquals_def

lemma confirm_all_xmin_pending:
  "\<forall>lsn \<in> set lsns. lsn < candidate_xmin_lsn slot \<Longrightarrow>
   catalog_xmin (data (confirm_all lsns slot)) = catalog_xmin (data slot) \<and>
   effective_catalog_xmin (confirm_all lsns slot) = effective_catalog_xmin slot \<and>
   candidate_catalog_xmin (confirm_all lsns slot) = candidate_catalog_xmin slot \<and>
   candidate_xmin_lsn (confirm_all lsns slot) = candidate_xmin_lsn slot"
proof (induction lsns arbitrary: slot)
  case Nil
  then show ?case by simp
next
  case (Cons a lsns)
  from Cons.prems have "\<not> xmin_due a slot" by (simp add: xmin_not_due)
  note kept = confirm_xmin_track_kept [OF this]
  from Cons.prems kept(4)
  have "\<forall>lsn \<in> set lsns. lsn < candidate_xmin_lsn (LogicalConfirmReceivedLocation a slot)"
    by simp
  from Cons.IH [OF this] kept show ?case by simp
qed

lemma confirm_all_restart_pending:
  "\<forall>lsn \<in> set lsns. lsn < candidate_restart_valid slot \<Longrightarrow>
   restart_lsn (data (confirm_all lsns slot)) = restart_lsn (data slot) \<and>
   candidate_restart_lsn (confirm_all lsns slot) = candidate_restart_lsn slot \<and>
   candidate_restart_valid (confirm_all lsns slot) = candidate_restart_valid slot"
proof (induction lsns arbitrary: slot)
  case Nil
  then show ?case by simp
next
  case (Cons a lsns)
  from Cons.prems have "\<not> restart_due a slot" by (simp add: restart_not_due)
  note kept = confirm_restart_track_kept [OF this]
  from Cons.prems kept(3)
  have "\<forall>lsn \<in> set lsns. lsn < candidate_restart_valid (LogicalConfirmReceivedLocation a slot)"
    by simp
  from Cons.IH [OF this] kept show ?case by simp
qed

lemma confirm_adopts_only_due:
  "effective_catalog_xmin (LogicalConfirmReceivedLocation lsn slot) \<noteq> effective_catalog_xmin slot \<or>
   catalog_xmin (data (LogicalConfirmReceivedLocation lsn slot)) \<noteq> catalog_xmin (data slot) \<Longrightarrow>
   xmin_due lsn slot"
  using confirm_xmin_track_kept(1,2) [of lsn slot] by blast

lemma confirm_adopts_candidate:
  "xmin_due lsn slot \<Longrightarrow>
   effective_catalog_xmin (LogicalConfirmReceivedLocation lsn slot) = candidate_catalog_xmin slot \<and>
   catalog_xmin (data (LogicalConfirmReceivedLocation lsn slot)) = candidate_catalog_xmin slot"
  by (cases lsn slot rule: confirm_cases)
     (simp_all add: adopt_xmin_def adopt_restart_def set_confirmed_def)

lemma confirm_adopts_restart_candidate:
  "restart_due lsn slot \<Longrightarrow>
   restart_lsn (data (LogicalConfirmReceivedLocation lsn slot)) = candidate_restart_lsn slot"
  by (cases lsn slot rule: confirm_cases)
     (simp_all add: adopt_xmin_def adopt_restart_def set_confirmed_def)

text \<open>
  Claim C1 (no premature adoption). While every acknowledged position of a sequence of
  \<open>LogicalConfirmReceivedLocation\<close> calls is below the trigger position of the pending
  candidate (\<open>candidate_xmin_lsn\<close>, \<open>candidate_restart_valid\<close>), the enforced value
  of that track (\<open>catalog_xmin\<close> and \<open>effective_catalog_xmin\<close>, \<open>restart_lsn\<close>)
  stays what it was after each call of the sequence, and the candidate stays pending.
  Whenever one call does change an enforced value, the new value is the candidate's and
  the candidate's trigger position is at or below the \<open>confirmed_flush\<close> the call leaves.
\<close>

theorem C1_no_premature_adoption:
  "((\<forall>lsn \<in> set lsns. lsn < candidate_xmin_lsn slot) \<longrightarrow>
      catalog_xmin (data (confirm_all (take n lsns) slot)) = catalog_xmin (data slot) \<and>
      effective_catalog_xmin (confirm_all (take n lsns) slot) = effective_catalog_xmin slot \<and>
      candidate_catalog_xmin (confirm_all (take n lsns) slot) = candidate_catalog_xmin slot \<and>
      candidate_xmin_lsn (confirm_all (take n lsns) slot) = candidate_xmin_lsn slot) \<and>
   ((\<forall>lsn \<in> set lsns. lsn < candidate_restart_valid slot) \<longrightarrow>
      restart_lsn (data (confirm_all (take n lsns) slot)) = restart_lsn (data slot) \<and>
      candidate_restart_lsn (confirm_all (take n lsns) slot) = candidate_restart_lsn slot \<and>
      candidate_restart_valid (confirm_all (take n lsns) slot) = candidate_restart_valid slot) \<and>
   (effective_catalog_xmin (LogicalConfirmReceivedLocation p slot) \<noteq> effective_catalog_xmin slot \<or>
    catalog_xmin (data (LogicalConfirmReceivedLocation p slot)) \<noteq> catalog_xmin (data slot) \<longrightarrow>
      candidate_xmin_lsn slot \<le> confirmed_flush (data (LogicalConfirmReceivedLocation p slot)) \<and>
      effective_catalog_xmin (LogicalConfirmReceivedLocation p slot) = candidate_catalog_xmin slot) \<and>
   (restart_lsn (data (LogicalConfirmReceivedLocation p slot)) \<noteq> restart_lsn (data slot) \<longrightarrow>
      candidate_restart_valid slot \<le> confirmed_flush (data (LogicalConfirmReceivedLocation p slot)) \<and>
      restart_lsn (data (LogicalConfirmReceivedLocation p slot)) = candidate_restart_lsn slot)"
proof (intro conjI impI)
  assume a: "\<forall>lsn \<in> set lsns. lsn < candidate_xmin_lsn slot"
  have "\<forall>lsn \<in> set (take n lsns). lsn < candidate_xmin_lsn slot"
    using a by (meson in_set_takeD)
  note confirm_all_xmin_pending [OF this]
  then show "catalog_xmin (data (confirm_all (take n lsns) slot)) = catalog_xmin (data slot)"
    and "effective_catalog_xmin (confirm_all (take n lsns) slot) = effective_catalog_xmin slot"
    and "candidate_catalog_xmin (confirm_all (take n lsns) slot) = candidate_catalog_xmin slot"
    and "candidate_xmin_lsn (confirm_all (take n lsns) slot) = candidate_xmin_lsn slot"
    by simp_all
next
  assume a: "\<forall>lsn \<in> set lsns. lsn < candidate_restart_valid slot"
  have "\<forall>lsn \<in> set (take n lsns). lsn < candidate_restart_valid slot"
    using a by (meson in_set_takeD)
  note confirm_all_restart_pending [OF this]
  then show "restart_lsn (data (confirm_all (take n lsns) slot)) = restart_lsn (data slot)"
    and "candidate_restart_lsn (confirm_all (take n lsns) slot) = candidate_restart_lsn slot"
    and "candidate_restart_valid (confirm_all (take n lsns) slot) = candidate_restart_valid slot"
    by simp_all
next
  assume "effective_catalog_xmin (LogicalConfirmReceivedLocation p slot) \<noteq> effective_catalog_xmin slot \<or>
    catalog_xmin (data (LogicalConfirmReceivedLocation p slot)) \<noteq> catalog_xmin (data slot)"
  then have d: "xmin_due p slot" by (rule confirm_adopts_only_due)
  then show "candidate_xmin_lsn slot \<le> confirmed_flush (data (LogicalConfirmReceivedLocation p slot))"
    by (simp add: confirm_cf xmin_due_def)
  from d show "effective_catalog_xmin (LogicalConfirmReceivedLocation p slot) = candidate_catalog_xmin slot"
    by (simp add: confirm_adopts_candidate)
next
  assume "restart_lsn (data (LogicalConfirmReceivedLocation p slot)) \<noteq> restart_lsn (data slot)"
  then have d: "restart_due p slot" using confirm_restart_track_kept(1) by blast
  then show "candidate_restart_valid slot \<le> confirmed_flush (data (LogicalConfirmReceivedLocation p slot))"
    by (simp add: confirm_cf restart_due_def)
  from d show "restart_lsn (data (LogicalConfirmReceivedLocation p slot)) = candidate_restart_lsn slot"
    by (simp add: confirm_adopts_restart_candidate)
qed

lemma slot_pending_proposed:
  "LogicalIncreaseRestartDecodingForSlot 150 95 (LogicalIncreaseXminForSlot 150 50 slot_fresh) =
   slot_pending"
  by (simp add: LogicalIncreaseRestartDecodingForSlot_def LogicalIncreaseXminForSlot_def
      slot_fresh_def slot_pending_def xid_defs Let_def)

lemma confirm_150_pending:
  "LogicalConfirmReceivedLocation 150 slot_pending =
     \<lparr>data = \<lparr>database = 1, catalog_xmin = 50, restart_lsn = 95, confirmed_flush = 150\<rparr>,
      effective_catalog_xmin = 50,
      candidate_catalog_xmin = 0, candidate_xmin_lsn = 0,
      candidate_restart_valid = 0, candidate_restart_lsn = 0\<rparr>"
  by (simp add: LogicalConfirmReceivedLocation_def slot_pending_def xid_defs Let_def)

lemma confirm_all_pending:
  "confirm_all [120, 130] slot_pending = set_confirmed 130 slot_pending"
  by (simp add: LogicalConfirmReceivedLocation_def slot_pending_def xid_defs Let_def set_confirmed_def)

text \<open>
  The hypotheses of C1 at \<open>slot_pending\<close>: acknowledging 120 and 130 adopts nothing,
  acknowledging 150 adopts both candidates.
\<close>

theorem C1_no_premature_adoption_witness:
  "120 < candidate_xmin_lsn slot_pending \<and> 130 < candidate_xmin_lsn slot_pending \<and>
   120 < candidate_restart_valid slot_pending \<and> 130 < candidate_restart_valid slot_pending \<and>
   effective_catalog_xmin (confirm_all (take 2 [120, 130]) slot_pending) = 40 \<and>
   restart_lsn (data (confirm_all (take 2 [120, 130]) slot_pending)) = 90 \<and>
   effective_catalog_xmin (LogicalConfirmReceivedLocation 150 slot_pending) \<noteq>
     effective_catalog_xmin slot_pending \<and>
   restart_lsn (data (LogicalConfirmReceivedLocation 150 slot_pending)) \<noteq>
     restart_lsn (data slot_pending) \<and>
   candidate_xmin_lsn slot_pending \<le>
     confirmed_flush (data (LogicalConfirmReceivedLocation 150 slot_pending)) \<and>
   effective_catalog_xmin (LogicalConfirmReceivedLocation 150 slot_pending) = 50 \<and>
   restart_lsn (data (LogicalConfirmReceivedLocation 150 slot_pending)) = 95"
  using C1_no_premature_adoption [of "[120, 130]" slot_pending 2 150]
  by (simp add: confirm_150_pending) (simp add: slot_pending_def)

lemma slot_fresh_ok: "xmin_track_ok slot_fresh"
  by (simp add: xmin_track_ok_def slot_fresh_def InvalidXLogRecPtr_def)

lemma session_slots:
  "map (\<lambda>s. (confirmed_flush (data s), effective_catalog_xmin s, restart_lsn (data s)))
     (slots_after session_calls slot_fresh) =
   [(100, 40, 90), (120, 40, 90), (120, 40, 90), (150, 50, 95), (150, 60, 95), (160, 60, 95)]"
  by (simp add: session_calls_def LogicalConfirmReceivedLocation_def
      LogicalIncreaseRestartDecodingForSlot_def LogicalIncreaseXminForSlot_def
      slot_fresh_def xid_defs Let_def)

text \<open>
  Claim C3 (monotonicity). For a sequence of acknowledgements and proposals in any
  interleaving whose acknowledged positions are non-decreasing, on a slot whose xmin track
  is in the state every call leaves it in (\<open>xmin_track_ok\<close>): the \<open>confirmed_flush\<close>
  read after each acknowledgement is non-decreasing, the proposals leave
  \<open>confirmed_flush\<close> alone, and from each slot state to the next
  \<open>effective_catalog_xmin\<close> is non-decreasing in the modular order of transaction ids.
\<close>

theorem C3_monotonicity:
  assumes "sorted (confirm_positions cs)" and "xmin_track_ok slot"
  shows "sorted (confirmed_after_confirms cs slot) \<and>
         successively effective_le (slot # slots_after cs slot) \<and>
         confirmed_flush (data (do_call (IncreaseXmin current_lsn xmin) slot)) =
           confirmed_flush (data slot) \<and>
         confirmed_flush (data (do_call (IncreaseRestart current_lsn restart) slot)) =
           confirmed_flush (data slot)"
  using assms
  by (simp add: confirmed_after_confirms_eq effective_successively increase_xmin_confirmed
      increase_restart_confirmed)

text \<open>
  The hypotheses of C3 at a session on \<open>slot_fresh\<close> that interleaves three
  acknowledgements with three proposals.
\<close>

theorem C3_monotonicity_witness:
  "sorted (confirm_positions session_calls) \<and> xmin_track_ok slot_fresh \<and>
   confirmed_after_confirms session_calls slot_fresh = [120, 150, 160] \<and>
   sorted (confirmed_after_confirms session_calls slot_fresh) \<and>
   successively effective_le (slot_fresh # slots_after session_calls slot_fresh) \<and>
   map effective_catalog_xmin (slots_after session_calls slot_fresh) = [40, 40, 40, 50, 60, 60]"
proof -
  have s: "sorted (confirm_positions session_calls)"
    by (simp add: session_calls_def)
  have e: "confirmed_after_confirms session_calls slot_fresh = [120, 150, 160]"
    by (simp add: confirmed_after_confirms_eq session_calls_def)
  have m: "map effective_catalog_xmin (slots_after session_calls slot_fresh) = [40, 40, 40, 50, 60, 60]"
    using session_slots [THEN arg_cong, of "map (\<lambda>t. fst (snd t))"] by (simp add: comp_def)
  from C3_monotonicity [OF s slot_fresh_ok, of 150 50 95] s slot_fresh_ok e m show ?thesis by simp
qed

text \<open>
  Claim C7 (idempotence). Calling \<open>LogicalConfirmReceivedLocation\<close> twice with the same
  position leaves the slot, all fields of it, as calling it once does.
\<close>

theorem C7_confirm_idempotent:
  "LogicalConfirmReceivedLocation p (LogicalConfirmReceivedLocation p slot) =
   LogicalConfirmReceivedLocation p slot"
  by (rule confirm_idem)

text \<open>C7 at \<open>slot_pending\<close> and position 150, where both candidates are adopted.\<close>

theorem C7_confirm_idempotent_witness:
  "LogicalConfirmReceivedLocation 150 (LogicalConfirmReceivedLocation 150 slot_pending) =
     LogicalConfirmReceivedLocation 150 slot_pending \<and>
   effective_catalog_xmin (LogicalConfirmReceivedLocation 150 slot_pending) = 50 \<and>
   confirmed_flush (data (LogicalConfirmReceivedLocation 150 slot_pending)) = 150"
  using C7_confirm_idempotent [of 150 slot_pending]
  by (simp add: confirm_150_pending)

text \<open>
  Claim C6, as amended. \<open>LogicalConfirmReceivedLocation\<close> stores the acknowledged
  position in \<open>confirmed_flush\<close> whatever the old value was: there is no clamp, in either
  branch. So \<open>confirmed_flush\<close> is not decreased exactly when the acknowledged position
  is at or above the old \<open>confirmed_flush\<close>.
\<close>

theorem C6_confirmed_flush_assigned:
  "confirmed_flush (data (LogicalConfirmReceivedLocation p slot)) = p \<and>
   (confirmed_flush (data slot) \<le> confirmed_flush (data (LogicalConfirmReceivedLocation p slot))) =
   (confirmed_flush (data slot) \<le> p)"
  by (simp add: confirm_cf)

text \<open>The amended C6 at \<open>slot_pending\<close>, for a later and for a stale position.\<close>

theorem C6_confirmed_flush_assigned_witness:
  "confirmed_flush (data (LogicalConfirmReceivedLocation 150 slot_pending)) = 150 \<and>
   confirmed_flush (data slot_pending) \<le>
     confirmed_flush (data (LogicalConfirmReceivedLocation 150 slot_pending)) \<and>
   \<not> confirmed_flush (data slot_pending) \<le>
     confirmed_flush (data (LogicalConfirmReceivedLocation 80 slot_pending))"
  using C6_confirmed_flush_assigned [of 150 slot_pending]
    C6_confirmed_flush_assigned [of 80 slot_pending]
  by (simp add: slot_pending_def)

text \<open>
  Claim C6 as stated fails: an acknowledgement of position 80 on a slot whose
  \<open>confirmed_flush\<close> is 100 moves \<open>confirmed_flush\<close> back to 80, with a candidate
  pending (first branch) and without (second branch).
\<close>

theorem C6_stale_ack_counterexample:
  "80 < confirmed_flush (data slot_pending) \<and>
   confirmed_flush (data (LogicalConfirmReceivedLocation 80 slot_pending)) = 80 \<and>
   confirmed_flush (data (LogicalConfirmReceivedLocation 80 slot_pending)) \<noteq>
     confirmed_flush (data slot_pending) \<and>
   80 < confirmed_flush (data slot_fresh) \<and>
   confirmed_flush (data (LogicalConfirmReceivedLocation 80 slot_fresh)) \<noteq>
     confirmed_flush (data slot_fresh)"
  by (simp add: confirm_cf) (simp add: slot_pending_def slot_fresh_def)

lemma increase_xmin_noop:
  "TransactionIdPrecedesOrEquals xmin (catalog_xmin (data slot)) \<Longrightarrow>
   LogicalIncreaseXminForSlot current_lsn xmin slot = slot"
  by (simp add: LogicalIncreaseXminForSlot_def)

lemma increase_restart_noop_pending:
  "restart \<le> restart_lsn (data slot) \<Longrightarrow> candidate_restart_valid slot \<noteq> InvalidXLogRecPtr \<Longrightarrow>
   LogicalIncreaseRestartDecodingForSlot current_lsn restart slot = slot"
  by (simp add: LogicalIncreaseRestartDecodingForSlot_def Let_def)

text \<open>
  Claim C4, what the code does where the claim fails. When the proposed restart position
  does not advance \<open>restart_lsn\<close> and no restart candidate is pending,
  \<open>LogicalIncreaseRestartDecodingForSlot\<close> is not a no-op: the test of
  \<open>candidate_restart_valid\<close> is not chained to the first two branches by an
  \<open>else\<close>, so it runs and records the stale proposal as the candidate.
\<close>

theorem C4_stale_restart_recorded:
  "restart \<le> restart_lsn (data slot) \<Longrightarrow> candidate_restart_valid slot = InvalidXLogRecPtr \<Longrightarrow>
   LogicalIncreaseRestartDecodingForSlot current_lsn restart slot =
     slot\<lparr>candidate_restart_valid := current_lsn, candidate_restart_lsn := restart\<rparr>"
  by (simp add: LogicalIncreaseRestartDecodingForSlot_def Let_def)

text \<open>
  The failing input of C4: on \<open>slot_fresh\<close>, whose \<open>restart_lsn\<close> is 90, the call
  \<open>LogicalIncreaseRestartDecodingForSlot(150, 80)\<close> records the candidate 80 at 150,
  and the acknowledgement of position 150 then moves \<open>restart_lsn\<close> back to 80.
\<close>

theorem C4_stale_restart_recorded_witness:
  "80 \<le> restart_lsn (data slot_fresh) \<and>
   candidate_restart_valid slot_fresh = InvalidXLogRecPtr \<and>
   LogicalIncreaseRestartDecodingForSlot 150 80 slot_fresh \<noteq> slot_fresh \<and>
   candidate_restart_valid (LogicalIncreaseRestartDecodingForSlot 150 80 slot_fresh) = 150 \<and>
   candidate_restart_lsn (LogicalIncreaseRestartDecodingForSlot 150 80 slot_fresh) = 80 \<and>
   restart_lsn (data (LogicalConfirmReceivedLocation 150
     (LogicalIncreaseRestartDecodingForSlot 150 80 slot_fresh))) = 80"
proof -
  have h: "80 \<le> restart_lsn (data slot_fresh)" "candidate_restart_valid slot_fresh = InvalidXLogRecPtr"
    by (simp_all add: slot_fresh_def InvalidXLogRecPtr_def)
  show ?thesis
    unfolding C4_stale_restart_recorded [OF h, of 150]
    by (simp add: LogicalConfirmReceivedLocation_def slot_fresh_def xid_defs Let_def)
qed

lemma not_precedes_valid:
  "\<not> TransactionIdPrecedesOrEquals xmin c \<Longrightarrow> TransactionIdIsValid xmin \<and> c \<noteq> xmin"
  by (auto simp: TransactionIdPrecedesOrEquals_def TransactionIdIsValid_def
      TransactionIdIsNormal_def InvalidTransactionId_def FirstNormalTransactionId_def
      split: if_splits)

lemma confirm_adopts_clears:
  "xmin_due lsn slot \<Longrightarrow>
   candidate_xmin_lsn (LogicalConfirmReceivedLocation lsn slot) = InvalidXLogRecPtr \<and>
   candidate_catalog_xmin (LogicalConfirmReceivedLocation lsn slot) = InvalidTransactionId"
  by (cases lsn slot rule: confirm_cases)
     (simp_all add: adopt_xmin_def adopt_restart_def set_confirmed_def)

lemma confirm_adopts_restart_clears:
  "restart_due lsn slot \<Longrightarrow>
   candidate_restart_valid (LogicalConfirmReceivedLocation lsn slot) = InvalidXLogRecPtr \<and>
   candidate_restart_lsn (LogicalConfirmReceivedLocation lsn slot) = InvalidXLogRecPtr"
  by (cases lsn slot rule: confirm_cases)
     (simp_all add: adopt_xmin_def adopt_restart_def set_confirmed_def)

lemma increase_xmin_direct:
  assumes adv: "\<not> TransactionIdPrecedesOrEquals xmin (catalog_xmin (data slot))"
    and conf: "current_lsn \<le> confirmed_flush (data slot)"
  shows "candidate_xmin_lsn (LogicalIncreaseXminForSlot current_lsn xmin slot) = InvalidXLogRecPtr"
    and "current_lsn \<noteq> InvalidXLogRecPtr \<Longrightarrow>
         catalog_xmin (data (LogicalIncreaseXminForSlot current_lsn xmin slot)) = xmin \<and>
         effective_catalog_xmin (LogicalIncreaseXminForSlot current_lsn xmin slot) = xmin \<and>
         candidate_catalog_xmin (LogicalIncreaseXminForSlot current_lsn xmin slot) =
           InvalidTransactionId"
proof -
  let ?s1 = "slot\<lparr>candidate_catalog_xmin := xmin, candidate_xmin_lsn := current_lsn\<rparr>"
  let ?cf = "confirmed_flush (data slot)"
  have r: "LogicalIncreaseXminForSlot current_lsn xmin slot = LogicalConfirmReceivedLocation ?cf ?s1"
    using adv conf by (simp add: LogicalIncreaseXminForSlot_def Let_def)
  have due: "xmin_due ?cf ?s1" if "current_lsn \<noteq> InvalidXLogRecPtr"
    using that conf not_precedes_valid [OF adv] by (simp add: xmin_due_def)
  show "candidate_xmin_lsn (LogicalIncreaseXminForSlot current_lsn xmin slot) = InvalidXLogRecPtr"
  proof (cases "current_lsn = InvalidXLogRecPtr")
    case True
    then have "\<not> xmin_due ?cf ?s1" by (simp add: xmin_due_def)
    from confirm_xmin_track_kept(4) [OF this] True show ?thesis unfolding r by simp
  next
    case False
    from confirm_adopts_clears [OF due [OF False]] show ?thesis unfolding r by simp
  qed
  show "catalog_xmin (data (LogicalIncreaseXminForSlot current_lsn xmin slot)) = xmin \<and>
        effective_catalog_xmin (LogicalIncreaseXminForSlot current_lsn xmin slot) = xmin \<and>
        candidate_catalog_xmin (LogicalIncreaseXminForSlot current_lsn xmin slot) =
          InvalidTransactionId"
    if "current_lsn \<noteq> InvalidXLogRecPtr"
    using confirm_adopts_candidate [OF due [OF that]] confirm_adopts_clears [OF due [OF that]]
    unfolding r by simp
qed

lemma increase_restart_direct:
  assumes adv: "\<not> restart \<le> restart_lsn (data slot)"
    and conf: "current_lsn \<le> confirmed_flush (data slot)"
  shows "candidate_restart_valid (LogicalIncreaseRestartDecodingForSlot current_lsn restart slot) =
           InvalidXLogRecPtr"
    and "current_lsn \<noteq> InvalidXLogRecPtr \<Longrightarrow>
         restart_lsn (data (LogicalIncreaseRestartDecodingForSlot current_lsn restart slot)) =
           restart \<and>
         candidate_restart_lsn (LogicalIncreaseRestartDecodingForSlot current_lsn restart slot) =
           InvalidXLogRecPtr"
proof -
  let ?s1 = "slot\<lparr>candidate_restart_valid := current_lsn, candidate_restart_lsn := restart\<rparr>"
  let ?cf = "confirmed_flush (data slot)"
  have r: "LogicalIncreaseRestartDecodingForSlot current_lsn restart slot =
           LogicalConfirmReceivedLocation ?cf ?s1"
    using adv conf by (simp add: LogicalIncreaseRestartDecodingForSlot_def Let_def)
  have due: "restart_due ?cf ?s1" if "current_lsn \<noteq> InvalidXLogRecPtr"
    using that conf by (simp add: restart_due_def)
  show "candidate_restart_valid (LogicalIncreaseRestartDecodingForSlot current_lsn restart slot) =
          InvalidXLogRecPtr"
  proof (cases "current_lsn = InvalidXLogRecPtr")
    case True
    then have "\<not> restart_due ?cf ?s1" by (simp add: restart_due_def)
    from confirm_restart_track_kept(3) [OF this] True show ?thesis unfolding r by simp
  next
    case False
    from confirm_adopts_restart_clears [OF due [OF False]] show ?thesis unfolding r by simp
  qed
  show "restart_lsn (data (LogicalIncreaseRestartDecodingForSlot current_lsn restart slot)) =
          restart \<and>
        candidate_restart_lsn (LogicalIncreaseRestartDecodingForSlot current_lsn restart slot) =
          InvalidXLogRecPtr"
    if "current_lsn \<noteq> InvalidXLogRecPtr"
    using confirm_adopts_restart_candidate [OF due [OF that]]
      confirm_adopts_restart_clears [OF due [OF that]]
    unfolding r by simp
qed

lemma increase_kept:
  "candidate_xmin_lsn slot \<noteq> InvalidXLogRecPtr \<Longrightarrow>
   TransactionIdPrecedesOrEquals xmin (catalog_xmin (data slot)) \<or>
   confirmed_flush (data slot) < current_lsn \<Longrightarrow>
   LogicalIncreaseXminForSlot current_lsn xmin slot = slot"
  "candidate_restart_valid slot \<noteq> InvalidXLogRecPtr \<Longrightarrow>
   restart \<le> restart_lsn (data slot) \<or> confirmed_flush (data slot) < current_lsn \<Longrightarrow>
   LogicalIncreaseRestartDecodingForSlot current_lsn restart slot = slot"
  by (auto simp: LogicalIncreaseXminForSlot_def LogicalIncreaseRestartDecodingForSlot_def Let_def)

text \<open>
  Claim C5, as amended. With a candidate pending on a track, a proposal on that track
  leaves the slot unchanged, candidate value and trigger position included, when the
  proposed value does not advance the bound or when the proposal's own position
  \<open>current_lsn\<close> is beyond \<open>confirmed_flush\<close>. A proposal that advances the bound at
  a \<open>current_lsn\<close> at or below \<open>confirmed_flush\<close> discards the pending candidate: the
  trigger position of the track is invalid afterwards; and when that \<open>current_lsn\<close> is
  a valid position, the proposed value is adopted at once.
\<close>

theorem C5_backpressure:
  "(candidate_xmin_lsn slot \<noteq> InvalidXLogRecPtr \<and>
    (TransactionIdPrecedesOrEquals xmin (catalog_xmin (data slot)) \<or>
     confirmed_flush (data slot) < current_lsn) \<longrightarrow>
      LogicalIncreaseXminForSlot current_lsn xmin slot = slot) \<and>
   (candidate_restart_valid slot \<noteq> InvalidXLogRecPtr \<and>
    (restart \<le> restart_lsn (data slot) \<or> confirmed_flush (data slot) < current_lsn) \<longrightarrow>
      LogicalIncreaseRestartDecodingForSlot current_lsn restart slot = slot) \<and>
   (candidate_xmin_lsn slot \<noteq> InvalidXLogRecPtr \<and>
    \<not> TransactionIdPrecedesOrEquals xmin (catalog_xmin (data slot)) \<and>
    current_lsn \<le> confirmed_flush (data slot) \<longrightarrow>
      candidate_xmin_lsn (LogicalIncreaseXminForSlot current_lsn xmin slot) = InvalidXLogRecPtr \<and>
      (current_lsn \<noteq> InvalidXLogRecPtr \<longrightarrow>
         catalog_xmin (data (LogicalIncreaseXminForSlot current_lsn xmin slot)) = xmin \<and>
         effective_catalog_xmin (LogicalIncreaseXminForSlot current_lsn xmin slot) = xmin \<and>
         candidate_catalog_xmin (LogicalIncreaseXminForSlot current_lsn xmin slot) =
           InvalidTransactionId)) \<and>
   (candidate_restart_valid slot \<noteq> InvalidXLogRecPtr \<and>
    \<not> restart \<le> restart_lsn (data slot) \<and>
    current_lsn \<le> confirmed_flush (data slot) \<longrightarrow>
      candidate_restart_valid (LogicalIncreaseRestartDecodingForSlot current_lsn restart slot) =
        InvalidXLogRecPtr \<and>
      (current_lsn \<noteq> InvalidXLogRecPtr \<longrightarrow>
         restart_lsn (data (LogicalIncreaseRestartDecodingForSlot current_lsn restart slot)) =
           restart \<and>
         candidate_restart_lsn (LogicalIncreaseRestartDecodingForSlot current_lsn restart slot) =
           InvalidXLogRecPtr))"
proof (intro conjI impI)
  assume "candidate_xmin_lsn slot \<noteq> InvalidXLogRecPtr \<and>
    (TransactionIdPrecedesOrEquals xmin (catalog_xmin (data slot)) \<or>
     confirmed_flush (data slot) < current_lsn)"
  then show "LogicalIncreaseXminForSlot current_lsn xmin slot = slot"
    using increase_kept(1) by blast
next
  assume "candidate_restart_valid slot \<noteq> InvalidXLogRecPtr \<and>
    (restart \<le> restart_lsn (data slot) \<or> confirmed_flush (data slot) < current_lsn)"
  then show "LogicalIncreaseRestartDecodingForSlot current_lsn restart slot = slot"
    using increase_kept(2) by blast
next
  assume a: "candidate_xmin_lsn slot \<noteq> InvalidXLogRecPtr \<and>
    \<not> TransactionIdPrecedesOrEquals xmin (catalog_xmin (data slot)) \<and>
    current_lsn \<le> confirmed_flush (data slot)"
  then show "candidate_xmin_lsn (LogicalIncreaseXminForSlot current_lsn xmin slot) =
      InvalidXLogRecPtr"
    by (simp add: increase_xmin_direct(1))
  assume n: "current_lsn \<noteq> InvalidXLogRecPtr"
  from a have adv: "\<not> TransactionIdPrecedesOrEquals xmin (catalog_xmin (data slot))"
    and conf: "current_lsn \<le> confirmed_flush (data slot)" by simp_all
  note d = increase_xmin_direct(2) [OF adv conf n]
  from d show "catalog_xmin (data (LogicalIncreaseXminForSlot current_lsn xmin slot)) = xmin"
    by simp
  from d show "effective_catalog_xmin (LogicalIncreaseXminForSlot current_lsn xmin slot) = xmin"
    by simp
  from d show "candidate_catalog_xmin (LogicalIncreaseXminForSlot current_lsn xmin slot) =
      InvalidTransactionId"
    by simp
next
  assume a: "candidate_restart_valid slot \<noteq> InvalidXLogRecPtr \<and>
    \<not> restart \<le> restart_lsn (data slot) \<and>
    current_lsn \<le> confirmed_flush (data slot)"
  then show "candidate_restart_valid
      (LogicalIncreaseRestartDecodingForSlot current_lsn restart slot) = InvalidXLogRecPtr"
    by (simp add: increase_restart_direct(1))
  assume n: "current_lsn \<noteq> InvalidXLogRecPtr"
  from a have adv: "\<not> restart \<le> restart_lsn (data slot)"
    and conf: "current_lsn \<le> confirmed_flush (data slot)" by simp_all
  note d = increase_restart_direct(2) [OF adv conf n]
  from d show "restart_lsn (data (LogicalIncreaseRestartDecodingForSlot current_lsn restart slot)) =
      restart"
    by simp
  from d show "candidate_restart_lsn
      (LogicalIncreaseRestartDecodingForSlot current_lsn restart slot) = InvalidXLogRecPtr"
    by simp
qed

lemma sixty_advances:
  "\<not> TransactionIdPrecedesOrEquals 60 (catalog_xmin (data slot_pending))"
  by (simp add: slot_pending_def xid_defs)

text \<open>
  The hypotheses of the amended C5 at \<open>slot_pending\<close>: proposals at position 170 are
  dropped, proposals at position 90 replace the pending candidates and are adopted, and
  proposals at the invalid position discard the pending candidates and adopt nothing.
\<close>

theorem C5_backpressure_witness:
  "candidate_xmin_lsn slot_pending \<noteq> InvalidXLogRecPtr \<and>
   confirmed_flush (data slot_pending) < 170 \<and>
   candidate_restart_valid slot_pending \<noteq> InvalidXLogRecPtr \<and>
   LogicalIncreaseXminForSlot 170 60 slot_pending = slot_pending \<and>
   LogicalIncreaseRestartDecodingForSlot 170 97 slot_pending = slot_pending \<and>
   \<not> TransactionIdPrecedesOrEquals 60 (catalog_xmin (data slot_pending)) \<and>
   \<not> 97 \<le> restart_lsn (data slot_pending) \<and>
   90 \<le> confirmed_flush (data slot_pending) \<and>
   candidate_xmin_lsn (LogicalIncreaseXminForSlot 90 60 slot_pending) = InvalidXLogRecPtr \<and>
   catalog_xmin (data (LogicalIncreaseXminForSlot 90 60 slot_pending)) = 60 \<and>
   effective_catalog_xmin (LogicalIncreaseXminForSlot 90 60 slot_pending) = 60 \<and>
   candidate_restart_valid (LogicalIncreaseRestartDecodingForSlot 90 97 slot_pending) =
     InvalidXLogRecPtr \<and>
   restart_lsn (data (LogicalIncreaseRestartDecodingForSlot 90 97 slot_pending)) = 97 \<and>
   candidate_xmin_lsn (LogicalIncreaseXminForSlot 0 60 slot_pending) = InvalidXLogRecPtr \<and>
   candidate_restart_valid (LogicalIncreaseRestartDecodingForSlot 0 97 slot_pending) =
     InvalidXLogRecPtr"
proof -
  have h: "candidate_xmin_lsn slot_pending \<noteq> InvalidXLogRecPtr"
    "confirmed_flush (data slot_pending) < 170"
    "candidate_restart_valid slot_pending \<noteq> InvalidXLogRecPtr"
    "\<not> 97 \<le> restart_lsn (data slot_pending)"
    "90 \<le> confirmed_flush (data slot_pending)"
    "0 \<le> confirmed_flush (data slot_pending)"
    "(90 :: XLogRecPtr) \<noteq> InvalidXLogRecPtr"
    by (simp_all add: slot_pending_def InvalidXLogRecPtr_def)
  from h sixty_advances
    C5_backpressure [of slot_pending 60 170 97] C5_backpressure [of slot_pending 60 90 97] C5_backpressure [of slot_pending 60 0 97]
  show ?thesis by simp
qed

text \<open>
  Claim C5 as stated fails: with candidates pending on both tracks (trigger position 150,
  \<open>confirmed_flush\<close> 100), a proposal that advances the bound at a position the consumer
  has already confirmed (90) replaces the pending candidate and is adopted at once.
\<close>

theorem C5_overwrite_counterexample:
  "candidate_xmin_lsn slot_pending \<noteq> InvalidXLogRecPtr \<and>
   candidate_restart_valid slot_pending \<noteq> InvalidXLogRecPtr \<and>
   candidate_catalog_xmin (LogicalIncreaseXminForSlot 90 60 slot_pending) \<noteq>
     candidate_catalog_xmin slot_pending \<and>
   candidate_xmin_lsn (LogicalIncreaseXminForSlot 90 60 slot_pending) \<noteq>
     candidate_xmin_lsn slot_pending \<and>
   catalog_xmin (data (LogicalIncreaseXminForSlot 90 60 slot_pending)) = 60 \<and>
   candidate_restart_lsn (LogicalIncreaseRestartDecodingForSlot 90 97 slot_pending) \<noteq>
     candidate_restart_lsn slot_pending \<and>
   candidate_restart_valid (LogicalIncreaseRestartDecodingForSlot 90 97 slot_pending) \<noteq>
     candidate_restart_valid slot_pending \<and>
   restart_lsn (data (LogicalIncreaseRestartDecodingForSlot 90 97 slot_pending)) = 97"
  by (simp add: LogicalIncreaseRestartDecodingForSlot_def LogicalIncreaseXminForSlot_def
      LogicalConfirmReceivedLocation_def slot_pending_def xid_defs Let_def)

subsection \<open>The callback wrappers\<close>


















text \<open>
  Claim C10 (absent message callback). With no message callback registered,
  \<open>message_cb_wrapper\<close> returns with the backend's state unchanged, write state and
  error context stack included. \<open>LoadOutputPlugin\<close> raises an error when the begin, the
  change or the commit callback is missing, and accepts the table when those three are
  registered, a message callback or none.
\<close>

theorem C10_absent_message_callback:
  "(message_cb cbs = None \<longrightarrow>
      message_cb_wrapper cbs txn message_lsn transactional prefix message b = Returns () b) \<and>
   (begin_cb (init callbacks0) = None \<or> change_cb (init callbacks0) = None \<or>
    commit_cb (init callbacks0) = None \<longrightarrow>
      isl (LoadOutputPlugin callbacks0 (Some init))) \<and>
   (begin_cb (init callbacks0) \<noteq> None \<and> change_cb (init callbacks0) \<noteq> None \<and>
    commit_cb (init callbacks0) \<noteq> None \<longrightarrow>
      LoadOutputPlugin callbacks0 (Some init) = Inr (init callbacks0))"
  by (auto simp: message_cb_wrapper_def LoadOutputPlugin_def Let_def)

text \<open>
  The hypotheses of C10 at a plugin without a message callback and at one without a begin
  callback.
\<close>

theorem C10_absent_message_callback_witness:
  "message_cb (quiet_plugin_init no_callbacks) = None \<and>
   message_cb_wrapper (quiet_plugin_init no_callbacks) (Some txn0) 120 True ''p'' ''m'' backend0 =
     Returns () backend0 \<and>
   begin_cb (quiet_plugin_init no_callbacks) \<noteq> None \<and>
   change_cb (quiet_plugin_init no_callbacks) \<noteq> None \<and>
   commit_cb (quiet_plugin_init no_callbacks) \<noteq> None \<and>
   LoadOutputPlugin no_callbacks (Some quiet_plugin_init) = Inr (quiet_plugin_init no_callbacks) \<and>
   begin_cb (incomplete_plugin_init no_callbacks) = None \<and>
   isl (LoadOutputPlugin no_callbacks (Some incomplete_plugin_init))"
  using
    C10_absent_message_callback [of "quiet_plugin_init no_callbacks" "Some txn0" 120 True "''p''" "''m''"
      backend0 quiet_plugin_init no_callbacks]
    C10_absent_message_callback [of "quiet_plugin_init no_callbacks" "Some txn0" 120 True "''p''" "''m''"
      backend0 incomplete_plugin_init no_callbacks]
  by (simp add: quiet_plugin_init_def incomplete_plugin_init_def no_callbacks_def)

subsection \<open>The start position of a resumed session\<close>

lemma startup_start_decoding_at:
  "StartupDecodingContext env start_lsn xmin_horizon b = Returns ctx b' \<Longrightarrow>
   start_decoding_at (snapshot_builder ctx) = start_lsn"
  by (auto simp: StartupDecodingContext_def Let_def split: sum.splits if_splits)

lemma create_start_decoding_at:
  assumes "CreateDecodingContext start_lsn env (Some slot) b = Returns ctx b'"
  shows "start_decoding_at (snapshot_builder ctx) =
     (if start_lsn = InvalidXLogRecPtr \<or> start_lsn < confirmed_flush (data slot)
      then confirmed_flush (data slot) else start_lsn)"
proof -
  let ?start = "if start_lsn = InvalidXLogRecPtr then confirmed_flush (data slot)
     else if start_lsn < confirmed_flush (data slot) then confirmed_flush (data slot)
     else start_lsn"
  from assms obtain b1 where
    "StartupDecodingContext env ?start InvalidTransactionId b = Returns ctx b1"
    unfolding CreateDecodingContext_def Let_def
    by (auto split: if_splits sum.splits outcome.splits)
  from startup_start_decoding_at [OF this] show ?thesis by (simp split: if_splits)
qed

lemma create_clamps:
  assumes "start_lsn = InvalidXLogRecPtr \<or> start_lsn < confirmed_flush (data slot)"
  shows "CreateDecodingContext start_lsn env (Some slot) b =
         CreateDecodingContext (confirmed_flush (data slot)) env (Some slot) b"
proof -
  let ?cf = "confirmed_flush (data slot)"
  have e1: "(if start_lsn = InvalidXLogRecPtr then ?cf
             else if start_lsn < ?cf then ?cf else start_lsn) = ?cf"
    using assms by auto
  have e2: "(if ?cf = InvalidXLogRecPtr then ?cf
             else if ?cf < ?cf then ?cf else ?cf) = ?cf"
    by simp
  show ?thesis
    by (simp only: CreateDecodingContext_def Let_def option.case e1 e2)
qed

text \<open>
  Claim C8 (start position on resume). Called with the invalid position or with a
  position below the slot's \<open>confirmed_flush\<close>, \<open>CreateDecodingContext\<close> does exactly
  what it does when called with \<open>confirmed_flush\<close> itself, so the stale position raises
  no error of its own; and whenever the call returns a context, decoding starts at
  \<open>confirmed_flush\<close> in those two cases and at the given position otherwise.
\<close>

theorem C8_start_position:
  "(start_lsn = InvalidXLogRecPtr \<or> start_lsn < confirmed_flush (data slot) \<longrightarrow>
      CreateDecodingContext start_lsn env (Some slot) b =
      CreateDecodingContext (confirmed_flush (data slot)) env (Some slot) b) \<and>
   (CreateDecodingContext start_lsn env (Some slot) b = Returns ctx b' \<longrightarrow>
      start_decoding_at (snapshot_builder ctx) =
        (if start_lsn = InvalidXLogRecPtr \<or> start_lsn < confirmed_flush (data slot)
         then confirmed_flush (data slot) else start_lsn))"
  using create_clamps create_start_decoding_at by blast

lemma create_on_slot_fresh:
  "CreateDecodingContext start_lsn env0 (Some slot_fresh) backend0 =
     Returns
       \<lparr>callbacks = quiet_plugin_init no_callbacks,
        snapshot_builder =
          \<lparr>initial_xmin_horizon = 0,
           start_decoding_at = (if start_lsn = 0 \<or> start_lsn < 100 then 100 else start_lsn)\<rparr>\<rparr>
       (backend0\<lparr>in_logical_decoding := True\<rparr>)"
  by (simp add: CreateDecodingContext_def StartupDecodingContext_def
      EnsureActiveLogicalSlotValid_def LoadOutputPlugin_def SlotIsPhysical_def
      TransactionIdFollows_def InvalidOid_def xid_defs env0_def slot_fresh_def backend0_def
      quiet_plugin_init_def no_callbacks_def Let_def)

text \<open>
  The hypotheses of C8 on \<open>slot_fresh\<close>, whose \<open>confirmed_flush\<close> is 100: the calls
  with the invalid position and with 60 return a context that starts at 100, the call with
  120 one that starts at 120.
\<close>

theorem C8_start_position_witness:
  "CreateDecodingContext 0 env0 (Some slot_fresh) backend0 =
     CreateDecodingContext 100 env0 (Some slot_fresh) backend0 \<and>
   CreateDecodingContext 60 env0 (Some slot_fresh) backend0 =
     CreateDecodingContext 100 env0 (Some slot_fresh) backend0 \<and>
   CreateDecodingContext 60 env0 (Some slot_fresh) backend0 =
     Returns
       \<lparr>callbacks = quiet_plugin_init no_callbacks,
        snapshot_builder = \<lparr>initial_xmin_horizon = 0, start_decoding_at = 100\<rparr>\<rparr>
       (backend0\<lparr>in_logical_decoding := True\<rparr>) \<and>
   CreateDecodingContext 120 env0 (Some slot_fresh) backend0 =
     Returns
       \<lparr>callbacks = quiet_plugin_init no_callbacks,
        snapshot_builder = \<lparr>initial_xmin_horizon = 0, start_decoding_at = 120\<rparr>\<rparr>
       (backend0\<lparr>in_logical_decoding := True\<rparr>)"
  using
    C8_start_position [where start_lsn = 0 and slot = slot_fresh and env = env0
      and b = backend0]
    C8_start_position [where start_lsn = 60 and slot = slot_fresh and env = env0
      and b = backend0]
    create_on_slot_fresh [of 60] create_on_slot_fresh [of 120]
  by (simp add: slot_fresh_def InvalidXLogRecPtr_def)

subsection \<open>Persisting before enforcing\<close>

lemmas step_defs = SpinLockAcquire_def SpinLockRelease_def assign_def
  ReplicationSlotMarkDirty_def ReplicationSlotSave_def ReplicationSlotsComputeRequiredXmin_def
  ReplicationSlotsComputeRequiredLSN_def

lemma now_do_step [simp]: "now (do_step e f r) = f (now r)"
  by (simp add: do_step_def)

lemma past_do_step [simp]: "past (do_step e f r) = past r @ [(e, f (now r))]"
  by (simp add: do_step_def)

lemma observe_simp [simp]:
  "observe (e, w) = (e, mutex w, effective_catalog_xmin (slot_mem w), catalog_xmin (on_disk w))"
  by (simp add: observe_def RestoreSlotFromDisk_def)

lemma now_steps [simp]:
  "now (SpinLockAcquire r) = (now r)\<lparr>mutex := True\<rparr>"
  "now (SpinLockRelease r) = (now r)\<lparr>mutex := False\<rparr>"
  "now (assign e f r) = (now r)\<lparr>slot_mem := f (slot_mem (now r))\<rparr>"
  by (simp_all add: step_defs)

lemma run_steps_append: "run_steps (fs @ gs) r = run_steps gs (run_steps fs r)"
  by (induction fs arbitrary: r) simp_all

lemma traced_steps:
  "LogicalConfirmReceivedLocation_traced lsn r =
   run_steps (confirm_steps lsn (slot_mem (now r))) r"
proof -
  let ?s = "slot_mem (now r)"
  define r1 where "r1 = run_steps
    [SpinLockAcquire,
     assign Set_confirmed_flush (\<lambda>s. s\<lparr>data := (data s)\<lparr>confirmed_flush := lsn\<rparr>\<rparr>)] r"
  have s1: "slot_mem (now r1) = ?s\<lparr>data := (data ?s)\<lparr>confirmed_flush := lsn\<rparr>\<rparr>"
    by (simp add: r1_def)
  have ux: "(candidate_xmin_lsn (slot_mem (now r1)) \<noteq> InvalidXLogRecPtr \<and>
      candidate_xmin_lsn (slot_mem (now r1)) \<le> lsn \<and>
      TransactionIdIsValid (candidate_catalog_xmin (slot_mem (now r1))) \<and>
      catalog_xmin (data (slot_mem (now r1))) \<noteq> candidate_catalog_xmin (slot_mem (now r1))) =
     xmin_due lsn ?s"
    unfolding s1 by (simp add: xmin_due_def)
  define r2 where "r2 = (if xmin_due lsn ?s then
      run_steps
        [assign Set_catalog_xmin
           (\<lambda>s. s\<lparr>data := (data s)\<lparr>catalog_xmin := candidate_catalog_xmin s\<rparr>\<rparr>),
         assign Clear_candidate_catalog_xmin
           (\<lambda>s. s\<lparr>candidate_catalog_xmin := InvalidTransactionId\<rparr>),
         assign Clear_candidate_xmin_lsn
           (\<lambda>s. s\<lparr>candidate_xmin_lsn := InvalidXLogRecPtr\<rparr>)] r1
    else r1)"
  have s2: "candidate_restart_valid (slot_mem (now r2)) = candidate_restart_valid ?s"
    by (simp add: r2_def s1)
  have ur: "(candidate_restart_valid (slot_mem (now r2)) \<noteq> InvalidXLogRecPtr \<and>
      candidate_restart_valid (slot_mem (now r2)) \<le> lsn) = restart_due lsn ?s"
    unfolding s2 by (simp add: restart_due_def)
  define r3 where "r3 = (if restart_due lsn ?s then
      run_steps
        [assign Set_restart_lsn
           (\<lambda>s. s\<lparr>data := (data s)\<lparr>restart_lsn := candidate_restart_lsn s\<rparr>\<rparr>),
         assign Clear_candidate_restart_lsn
           (\<lambda>s. s\<lparr>candidate_restart_lsn := InvalidXLogRecPtr\<rparr>),
         assign Clear_candidate_restart_valid
           (\<lambda>s. s\<lparr>candidate_restart_valid := InvalidXLogRecPtr\<rparr>)] r2
    else r2)"
  define r5 where "r5 = (if xmin_due lsn ?s \<or> restart_due lsn ?s then
      run_steps [ReplicationSlotMarkDirty, ReplicationSlotSave] (SpinLockRelease r3)
    else SpinLockRelease r3)"
  have unfolded: "LogicalConfirmReceivedLocation_traced lsn r =
     (if candidate_xmin_lsn ?s \<noteq> InvalidXLogRecPtr \<or>
         candidate_restart_valid ?s \<noteq> InvalidXLogRecPtr
      then
        if xmin_due lsn ?s then
          run_steps
            [SpinLockAcquire,
             assign Set_effective_catalog_xmin
               (\<lambda>s. s\<lparr>effective_catalog_xmin := catalog_xmin (data s)\<rparr>),
             SpinLockRelease,
             ReplicationSlotsComputeRequiredXmin,
             ReplicationSlotsComputeRequiredLSN] r5
        else r5
      else
        run_steps
          [SpinLockAcquire,
           assign Set_confirmed_flush (\<lambda>s. s\<lparr>data := (data s)\<lparr>confirmed_flush := lsn\<rparr>\<rparr>),
           SpinLockRelease] r)"
    unfolding LogicalConfirmReceivedLocation_traced_def Let_def
      r1_def [symmetric] ux r2_def [symmetric] ur r3_def [symmetric] r5_def [symmetric]
    by (rule refl)
  have nodue: "\<not> xmin_due lsn ?s \<and> \<not> restart_due lsn ?s"
    if "\<not> (candidate_xmin_lsn ?s \<noteq> InvalidXLogRecPtr \<or>
            candidate_restart_valid ?s \<noteq> InvalidXLogRecPtr)"
    using that by (simp add: xmin_due_def restart_due_def)
  show ?thesis
    unfolding unfolded
    using nodue
    by (auto simp: confirm_steps_def xmin_steps_def restart_steps_def run_steps_append
        r5_def r3_def r2_def r1_def)
qed

lemma start_run_simps [simp]: "now (start_run w) = w" "past (start_run w) = []"
  by (simp_all add: start_run_def)

lemma traced_observed:
  assumes "xmin_due lsn (slot_mem w)"
  shows "map observe (past (LogicalConfirmReceivedLocation_traced lsn (start_run w))) =
     (let old = effective_catalog_xmin (slot_mem w);
          disk = catalog_xmin (on_disk w);
          new = candidate_catalog_xmin (slot_mem w)
      in [(Acquire, True, old, disk), (Set_confirmed_flush, True, old, disk),
          (Set_catalog_xmin, True, old, disk), (Clear_candidate_catalog_xmin, True, old, disk),
          (Clear_candidate_xmin_lsn, True, old, disk)] @
         (if restart_due lsn (slot_mem w)
          then [(Set_restart_lsn, True, old, disk), (Clear_candidate_restart_lsn, True, old, disk),
                (Clear_candidate_restart_valid, True, old, disk)]
          else []) @
         [(Release, False, old, disk), (MarkDirty, False, old, disk), (Save, False, old, new),
          (Acquire, True, old, new), (Set_effective_catalog_xmin, True, new, new),
          (Release, False, new, new), (ComputeRequiredXmin, False, new, new),
          (ComputeRequiredLSN, False, new, new)])"
proof (cases "restart_due lsn (slot_mem w)")
  case True
  have steps: "confirm_steps lsn (slot_mem w) =
      [SpinLockAcquire,
       assign Set_confirmed_flush (\<lambda>s. s\<lparr>data := (data s)\<lparr>confirmed_flush := lsn\<rparr>\<rparr>)] @
      xmin_steps @ restart_steps @
      [SpinLockRelease, ReplicationSlotMarkDirty, ReplicationSlotSave, SpinLockAcquire,
       assign Set_effective_catalog_xmin
         (\<lambda>s. s\<lparr>effective_catalog_xmin := catalog_xmin (data s)\<rparr>),
       SpinLockRelease, ReplicationSlotsComputeRequiredXmin, ReplicationSlotsComputeRequiredLSN]"
    using assms True by (simp add: confirm_steps_def)
  show ?thesis
    unfolding traced_steps start_run_simps steps
    using True
    by (simp add: xmin_steps_def restart_steps_def step_defs do_step_def Let_def)
next
  case False
  have steps: "confirm_steps lsn (slot_mem w) =
      [SpinLockAcquire,
       assign Set_confirmed_flush (\<lambda>s. s\<lparr>data := (data s)\<lparr>confirmed_flush := lsn\<rparr>\<rparr>)] @
      xmin_steps @
      [SpinLockRelease, ReplicationSlotMarkDirty, ReplicationSlotSave, SpinLockAcquire,
       assign Set_effective_catalog_xmin
         (\<lambda>s. s\<lparr>effective_catalog_xmin := catalog_xmin (data s)\<rparr>),
       SpinLockRelease, ReplicationSlotsComputeRequiredXmin, ReplicationSlotsComputeRequiredLSN]"
    using assms False by (simp add: confirm_steps_def)
  show ?thesis
    unfolding traced_steps start_run_simps steps
    using False
    by (simp add: xmin_steps_def restart_steps_def step_defs do_step_def Let_def)
qed

lemma traced_agrees:
  "slot_mem (now (LogicalConfirmReceivedLocation_traced lsn r)) =
   LogicalConfirmReceivedLocation lsn (slot_mem (now r))"
proof (cases lsn "slot_mem (now r)" rule: confirm_cases)
  case both
  then show ?thesis
    by (simp add: traced_steps confirm_steps_def xmin_steps_def restart_steps_def step_defs
        do_step_def adopt_xmin_def adopt_restart_def set_confirmed_def)
next
  case xmin_only
  then show ?thesis
    by (simp add: traced_steps confirm_steps_def xmin_steps_def restart_steps_def step_defs
        do_step_def adopt_xmin_def adopt_restart_def set_confirmed_def)
next
  case restart_only
  then show ?thesis
    by (simp add: traced_steps confirm_steps_def xmin_steps_def restart_steps_def step_defs
        do_step_def adopt_xmin_def adopt_restart_def set_confirmed_def)
next
  case none
  then show ?thesis
    by (simp add: traced_steps confirm_steps_def xmin_steps_def restart_steps_def step_defs
        do_step_def adopt_xmin_def adopt_restart_def set_confirmed_def)
qed

lemma pending_due: "xmin_due 150 (slot_mem shared_pending)" "restart_due 150 (slot_mem shared_pending)"
  by (simp_all add: xmin_due_def restart_due_def shared_pending_def slot_pending_def xid_defs)

lemma traced_pending_past:
  "map (\<lambda>x. (fst x, mutex (snd x)))
     (past (LogicalConfirmReceivedLocation_traced 150 (start_run shared_pending))) =
   [(Acquire, True), (Set_confirmed_flush, True), (Set_catalog_xmin, True),
    (Clear_candidate_catalog_xmin, True), (Clear_candidate_xmin_lsn, True),
    (Set_restart_lsn, True), (Clear_candidate_restart_lsn, True),
    (Clear_candidate_restart_valid, True), (Release, False), (MarkDirty, False), (Save, False),
    (Acquire, True), (Set_effective_catalog_xmin, True), (Release, False),
    (ComputeRequiredXmin, False), (ComputeRequiredLSN, False)]"
  using traced_observed [OF pending_due(1), THEN arg_cong, of "map (\<lambda>x. (fst x, fst (snd x)))"]
    pending_due(2)
  by (simp add: Let_def observe_def comp_def)

text \<open>
  Claim C2, as amended (durability before enforcement). Whenever the catalog xmin
  candidate is adopted, the steps of the call are these, in this order: under the
  spinlock the new \<open>catalog_xmin\<close> is stored in \<open>slot->data\<close> and the candidates are
  cleared; the lock is released; the slot is marked dirty and saved with the lock free;
  only then the lock is taken again and, under it, \<open>effective_catalog_xmin\<close> is assigned.
  Up to the save the value enforced in memory and the value a restart would enforce are
  the old ones; from the save on a restart enforces the new value, the one the assignment
  that follows enforces in memory, so a crash between the two loses nothing.
\<close>

theorem C2_persist_before_enforce:
  assumes "xmin_due lsn (slot_mem w)"
  shows "map observe (past (LogicalConfirmReceivedLocation_traced lsn (start_run w))) =
     (let old = effective_catalog_xmin (slot_mem w);
          disk = catalog_xmin (on_disk w);
          new = candidate_catalog_xmin (slot_mem w)
      in [(Acquire, True, old, disk), (Set_confirmed_flush, True, old, disk),
          (Set_catalog_xmin, True, old, disk), (Clear_candidate_catalog_xmin, True, old, disk),
          (Clear_candidate_xmin_lsn, True, old, disk)] @
         (if restart_due lsn (slot_mem w)
          then [(Set_restart_lsn, True, old, disk), (Clear_candidate_restart_lsn, True, old, disk),
                (Clear_candidate_restart_valid, True, old, disk)]
          else []) @
         [(Release, False, old, disk), (MarkDirty, False, old, disk), (Save, False, old, new),
          (Acquire, True, old, new), (Set_effective_catalog_xmin, True, new, new),
          (Release, False, new, new), (ComputeRequiredXmin, False, new, new),
          (ComputeRequiredLSN, False, new, new)])"
  using assms by (rule traced_observed)

text \<open>
  The hypothesis of the amended C2 at \<open>slot_pending\<close> with the acknowledgement of
  position 150, which adopts both candidates.
\<close>

theorem C2_persist_before_enforce_witness:
  "xmin_due 150 (slot_mem shared_pending) \<and>
   map observe (past (LogicalConfirmReceivedLocation_traced 150 (start_run shared_pending))) =
   [(Acquire, True, 40, 40), (Set_confirmed_flush, True, 40, 40),
    (Set_catalog_xmin, True, 40, 40), (Clear_candidate_catalog_xmin, True, 40, 40),
    (Clear_candidate_xmin_lsn, True, 40, 40),
    (Set_restart_lsn, True, 40, 40), (Clear_candidate_restart_lsn, True, 40, 40),
    (Clear_candidate_restart_valid, True, 40, 40),
    (Release, False, 40, 40), (MarkDirty, False, 40, 40), (Save, False, 40, 50),
    (Acquire, True, 40, 50), (Set_effective_catalog_xmin, True, 50, 50), (Release, False, 50, 50),
    (ComputeRequiredXmin, False, 50, 50), (ComputeRequiredLSN, False, 50, 50)]"
  using C2_persist_before_enforce [OF pending_due(1)] pending_due
  by (simp add: Let_def) (simp add: shared_pending_def slot_pending_def)

text \<open>
  Claim C2 as stated fails in one part: the assignment of \<open>effective_catalog_xmin\<close> is
  not made outside the slot's spinlock. In the run on \<open>slot_pending\<close> the spinlock is
  held during that assignment and free during the save.
\<close>

theorem C2_effective_update_locked_counterexample:
  "lock_held_during Set_effective_catalog_xmin
     (LogicalConfirmReceivedLocation_traced 150 (start_run shared_pending)) = [True] \<and>
   lock_held_during Save
     (LogicalConfirmReceivedLocation_traced 150 (start_run shared_pending)) = [False]"
proof -
  have l: "lock_held_during e r =
      map snd (filter (\<lambda>y. fst y = e) (map (\<lambda>x. (fst x, mutex (snd x))) (past r)))" for e r
    by (simp add: lock_held_during_def filter_map comp_def)
  show ?thesis
    unfolding l traced_pending_past by simp
qed

end
